theory Spec2Isabelle
  imports Complex_Main "HOL-Library.AList"
begin

section \<open>Shared vocabulary: exceptions, dtypes, Python arithmetic\<close>

text \<open>
  Every \<^verbatim>\<open>raise\<close>, failed \<^verbatim>\<open>assert\<close> and runtime failure of
  \<^verbatim>\<open>open_clip/model.py\<close> is a value of \<open>error\<close>; a function that can raise
  returns \<open>error + 'a\<close> with \<open>Inl\<close> for the exception. \<open>NonFinite\<close> is not a
  Python exception: it marks the inputs on which the floating-point computation
  returns a tensor holding \<open>inf\<close> or \<open>nan\<close> entries (a division by zero, the square
  root of a negative number), which the real-valued tensors used below cannot hold.
\<close>

datatype error =
    ValueError
  | AssertionError
  | NotImplementedError
  | TypeError
  | ZeroDivisionError
  | RuntimeError
  | KeyError
  | IndexError
  | AttributeError
  | NonFinite

datatype dtype = Float64 | Float32 | Float16 | BFloat16

definition bindE :: "error + 'a \<Rightarrow> ('a \<Rightarrow> error + 'b) \<Rightarrow> error + 'b" where
  "bindE m f = (case m of Inl e \<Rightarrow> Inl e | Inr x \<Rightarrow> f x)"

text \<open>Python's \<^verbatim>\<open>a // b\<close> on ints: floor division, \<^verbatim>\<open>ZeroDivisionError\<close> for \<open>b = 0\<close>.\<close>

definition py_floordiv :: "int \<Rightarrow> int \<Rightarrow> error + int" where
  "py_floordiv a b = (if b = 0 then Inl ZeroDivisionError else Inr (a div b))"

text \<open>\<^verbatim>\<open>a - r\<close> where \<open>r\<close> is an \<^verbatim>\<open>Optional[int]\<close>: \<^verbatim>\<open>None\<close> raises \<^verbatim>\<open>TypeError\<close>.\<close>

definition py_sub_opt :: "int \<Rightarrow> int option \<Rightarrow> error + int" where
  "py_sub_opt a r = (case r of None \<Rightarrow> Inl TypeError | Some d \<Rightarrow> Inr (a - d))"

text \<open>\<^verbatim>\<open>str.startswith\<close> and \<^verbatim>\<open>str.endswith\<close>.\<close>

definition startswith :: "string \<Rightarrow> string \<Rightarrow> bool" where
  "startswith s p = (take (length p) s = p)"

definition endswith :: "string \<Rightarrow> string \<Rightarrow> bool" where
  "endswith s p = (length p \<le> length s \<and> drop (length s - length p) s = p)"

section \<open>Configuration records\<close>

text \<open>
  \<^verbatim>\<open>CLIPVisionCfg.layers\<close> is an int or a 4-tuple, \<^verbatim>\<open>image_size\<close> an int or a pair.
  Float fields are reals: the code only passes them on or compares them with zero.
\<close>

datatype layers_cfg = Scalar int | Stages int int int int

datatype size_cfg = Square int | Rect int int

record CLIPVisionCfg =
  v_layers :: layers_cfg
  v_width :: int
  v_head_width :: int
  v_mlp_ratio :: real
  v_patch_size :: "int option"
  v_image_size :: size_cfg
  v_ls_init_value :: "real option"
  v_patch_dropout :: real
  v_input_patchnorm :: bool
  v_global_average_pool :: bool
  v_attentional_pool :: bool
  v_n_queries :: int
  v_attn_pooler_heads :: int
  v_output_tokens :: bool
  v_timm_model_name :: "string option"
  v_timm_model_pretrained :: bool
  v_timm_pool :: string
  v_timm_proj :: string
  v_timm_proj_bias :: bool
  v_timm_drop :: real
  v_timm_drop_path :: "real option"

record CLIPTextCfg =
  t_context_length :: int
  t_vocab_size :: int
  t_width :: int
  t_heads :: int
  t_layers :: int
  t_ls_init_value :: "real option"
  t_hf_model_name :: "string option"
  t_hf_tokenizer_name :: "string option"
  t_hf_model_pretrained :: bool
  t_proj :: string
  t_pooler_type :: string
  t_embed_cls :: bool
  t_pad_id :: int
  t_output_tokens :: bool
  t_global_average_pool :: bool
  t_attentional_pool :: bool
  t_n_queries :: int
  t_attn_pooler_heads :: int

section \<open>Tower factories\<close>

text \<open>
  The tower classes (\<^verbatim>\<open>TimmModel\<close>, \<^verbatim>\<open>ModifiedResNet\<close>, \<^verbatim>\<open>VisionTransformer\<close>,
  \<^verbatim>\<open>SPAROVisionTransformer\<close>, \<^verbatim>\<open>HFTextEncoder\<close>, \<^verbatim>\<open>TextTransformer\<close>,
  \<^verbatim>\<open>SPAROTextTransformer\<close>) live in other modules. Their constructors are parameters
  of the factories: each takes the keyword arguments the factory passes, as a record,
  and may raise. The factories start from the dataclass; the \<^verbatim>\<open>dict\<close> form of a
  config is turned into the dataclass by its constructor before anything else happens.
\<close>

datatype act_layer = QuickGELU | GELU

datatype norm_layer = LayerNormFp32 | LayerNorm

record timm_args =
  tm_model_name :: string
  tm_pretrained :: bool
  tm_pool :: string
  tm_proj :: string
  tm_proj_bias :: bool
  tm_drop :: real
  tm_drop_path :: "real option"
  tm_patch_drop :: "real option"
  tm_embed_dim :: int
  tm_image_size :: size_cfg

record resnet_args =
  rn_layers :: "int \<times> int \<times> int \<times> int"
  rn_output_dim :: int
  rn_heads :: int
  rn_image_size :: size_cfg
  rn_width :: int

record vit_args =
  vt_image_size :: size_cfg
  vt_patch_size :: "int option"
  vt_width :: int
  vt_layers :: int
  vt_heads :: int
  vt_mlp_ratio :: real
  vt_ls_init_value :: "real option"
  vt_patch_dropout :: real
  vt_input_patchnorm :: bool
  vt_global_average_pool :: bool
  vt_attentional_pool :: bool
  vt_n_queries :: int
  vt_attn_pooler_heads :: int
  vt_output_tokens :: bool
  vt_output_dim :: int
  vt_act_layer :: act_layer
  vt_norm_layer :: norm_layer

record sparo_args =
  sp_L :: "int option"
  sp_V :: "int option"
  sp_attn_dim :: "int option"
  sp_value_dim :: "int option"
  sp_heads :: "int option"
  sp_share_kv :: bool

record 'v vision_ctors =
  TimmModel :: "timm_args \<Rightarrow> error + 'v"
  ModifiedResNet :: "resnet_args \<Rightarrow> error + 'v"
  VisionTransformer :: "vit_args \<Rightarrow> bool \<Rightarrow> error + 'v"
  SPAROVisionTransformer :: "vit_args \<Rightarrow> sparo_args \<Rightarrow> error + 'v"

definition norm_layer_for :: "dtype option \<Rightarrow> norm_layer" where
  "norm_layer_for cast_dtype =
     (if cast_dtype = Some Float16 \<or> cast_dtype = Some BFloat16 then LayerNormFp32 else LayerNorm)"

definition act_layer_for :: "bool \<Rightarrow> act_layer" where
  "act_layer_for quick_gelu = (if quick_gelu then QuickGELU else GELU)"

text \<open>A \<^verbatim>\<open>str\<close> that may be \<^verbatim>\<open>None\<close> is truthy when it is a non-empty string.\<close>

definition truthy_name :: "string option \<Rightarrow> string option" where
  "truthy_name n = (case n of Some (c # cs) \<Rightarrow> Some (c # cs) | _ \<Rightarrow> None)"

definition vit_args_of ::
  "int \<Rightarrow> CLIPVisionCfg \<Rightarrow> int \<Rightarrow> int \<Rightarrow> act_layer \<Rightarrow> norm_layer \<Rightarrow> vit_args" where
  "vit_args_of embed_dim cfg layers heads act nrm =
     \<lparr> vt_image_size = v_image_size cfg,
       vt_patch_size = v_patch_size cfg,
       vt_width = v_width cfg,
       vt_layers = layers,
       vt_heads = heads,
       vt_mlp_ratio = v_mlp_ratio cfg,
       vt_ls_init_value = v_ls_init_value cfg,
       vt_patch_dropout = v_patch_dropout cfg,
       vt_input_patchnorm = v_input_patchnorm cfg,
       vt_global_average_pool = v_global_average_pool cfg,
       vt_attentional_pool = v_attentional_pool cfg,
       vt_n_queries = v_n_queries cfg,
       vt_attn_pooler_heads = v_attn_pooler_heads cfg,
       vt_output_tokens = v_output_tokens cfg,
       vt_output_dim = embed_dim,
       vt_act_layer = act,
       vt_norm_layer = nrm \<rparr>"

text \<open>
  \<^verbatim>\<open>_build_vision_tower\<close>. The head count is \<^verbatim>\<open>width * 32 // head_width\<close> on the
  residual path and \<^verbatim>\<open>width // head_width\<close> on the transformer path; the statements
  run in the order of the source, so the assertion of the residual path comes before
  the division, and the division before \<^verbatim>\<open>layers - reduce_depth\<close>.
\<close>

definition build_vision_tower ::
  "'v vision_ctors \<Rightarrow> int \<Rightarrow> CLIPVisionCfg \<Rightarrow> bool \<Rightarrow> dtype option \<Rightarrow> bool \<Rightarrow>
     sparo_args \<Rightarrow> int option \<Rightarrow> bool \<Rightarrow> error + 'v" where
  "build_vision_tower ctors embed_dim cfg quick_gelu cast_dtype use_sparo sparo reduce_depth use_codebook =
     (let act = act_layer_for quick_gelu in
      case truthy_name (v_timm_model_name cfg) of
        Some name \<Rightarrow>
          TimmModel ctors
            \<lparr> tm_model_name = name,
              tm_pretrained = v_timm_model_pretrained cfg,
              tm_pool = v_timm_pool cfg,
              tm_proj = v_timm_proj cfg,
              tm_proj_bias = v_timm_proj_bias cfg,
              tm_drop = v_timm_drop cfg,
              tm_drop_path = v_timm_drop_path cfg,
              tm_patch_drop = (if v_patch_dropout cfg > 0 then Some (v_patch_dropout cfg) else None),
              tm_embed_dim = embed_dim,
              tm_image_size = v_image_size cfg \<rparr>
      | None \<Rightarrow>
          (case v_layers cfg of
             Stages l0 l1 l2 l3 \<Rightarrow>
               if use_sparo then Inl AssertionError
               else
                 bindE (py_floordiv (v_width cfg * 32) (v_head_width cfg)) (\<lambda>vision_heads.
                 bindE (py_sub_opt l2 reduce_depth) (\<lambda>l2'.
                   ModifiedResNet ctors
                     \<lparr> rn_layers = (l0, l1, l2', l3),
                       rn_output_dim = embed_dim,
                       rn_heads = vision_heads,
                       rn_image_size = v_image_size cfg,
                       rn_width = v_width cfg \<rparr>))
           | Scalar n \<Rightarrow>
               bindE (py_floordiv (v_width cfg) (v_head_width cfg)) (\<lambda>vision_heads.
               let nrm = norm_layer_for cast_dtype in
               bindE (py_sub_opt n reduce_depth) (\<lambda>layers.
                 if use_sparo
                 then SPAROVisionTransformer ctors
                        (vit_args_of embed_dim cfg layers vision_heads act nrm) sparo
                 else VisionTransformer ctors
                        (vit_args_of embed_dim cfg layers vision_heads act nrm) use_codebook))))"

record hf_args =
  hf_model_name :: string
  hf_output_dim :: int
  hf_proj :: string
  hf_pooler_type :: string
  hf_pretrained :: bool
  hf_output_tokens :: bool

record text_args =
  tt_context_length :: int
  tt_vocab_size :: int
  tt_width :: int
  tt_heads :: int
  tt_layers :: int
  tt_ls_init_value :: "real option"
  tt_output_dim :: int
  tt_embed_cls :: bool
  tt_output_tokens :: bool
  tt_pad_id :: int
  tt_act_layer :: act_layer
  tt_norm_layer :: norm_layer
  tt_global_average_pool :: bool
  tt_attentional_pool :: bool
  tt_n_queries :: int
  tt_attn_pooler_heads :: int

record 't text_ctors =
  HFTextEncoder :: "hf_args \<Rightarrow> error + 't"
  TextTransformer :: "text_args \<Rightarrow> bool \<Rightarrow> error + 't"
  SPAROTextTransformer :: "text_args \<Rightarrow> sparo_args \<Rightarrow> error + 't"

definition text_args_of :: "int \<Rightarrow> CLIPTextCfg \<Rightarrow> int \<Rightarrow> act_layer \<Rightarrow> norm_layer \<Rightarrow> text_args" where
  "text_args_of embed_dim cfg layers act nrm =
     \<lparr> tt_context_length = t_context_length cfg,
       tt_vocab_size = t_vocab_size cfg,
       tt_width = t_width cfg,
       tt_heads = t_heads cfg,
       tt_layers = layers,
       tt_ls_init_value = t_ls_init_value cfg,
       tt_output_dim = embed_dim,
       tt_embed_cls = t_embed_cls cfg,
       tt_output_tokens = t_output_tokens cfg,
       tt_pad_id = t_pad_id cfg,
       tt_act_layer = act,
       tt_norm_layer = nrm,
       tt_global_average_pool = t_global_average_pool cfg,
       tt_attentional_pool = t_attentional_pool cfg,
       tt_n_queries = t_n_queries cfg,
       tt_attn_pooler_heads = t_attn_pooler_heads cfg \<rparr>"

text \<open>\<^verbatim>\<open>_build_text_tower\<close>: the head count is taken from the config as it is.\<close>

definition build_text_tower ::
  "'t text_ctors \<Rightarrow> int \<Rightarrow> CLIPTextCfg \<Rightarrow> bool \<Rightarrow> dtype option \<Rightarrow> bool \<Rightarrow>
     sparo_args \<Rightarrow> int option \<Rightarrow> bool \<Rightarrow> error + 't" where
  "build_text_tower ctors embed_dim cfg quick_gelu cast_dtype use_sparo sparo reduce_depth use_codebook =
     (case truthy_name (t_hf_model_name cfg) of
        Some name \<Rightarrow>
          HFTextEncoder ctors
            \<lparr> hf_model_name = name,
              hf_output_dim = embed_dim,
              hf_proj = t_proj cfg,
              hf_pooler_type = t_pooler_type cfg,
              hf_pretrained = t_hf_model_pretrained cfg,
              hf_output_tokens = t_output_tokens cfg \<rparr>
      | None \<Rightarrow>
          (let act = act_layer_for quick_gelu;
               nrm = norm_layer_for cast_dtype in
           bindE (py_sub_opt (t_layers cfg) reduce_depth) (\<lambda>layers.
             if use_sparo
             then SPAROTextTransformer ctors (text_args_of embed_dim cfg layers act nrm) sparo
             else TextTransformer ctors (text_args_of embed_dim cfg layers act nrm) use_codebook)))"

section \<open>The composite model: construction\<close>

text \<open>
  The arguments of \<^verbatim>\<open>CLIP.__init__\<close>, and what the constructor calls outside this
  module: the tower constructors, \<^verbatim>\<open>nn.Linear\<close>, \<^verbatim>\<open>torch.randn\<close>,
  \<^verbatim>\<open>FDTQueryModel\<close>, and the reads and writes of tower attributes
  (\<^verbatim>\<open>text.sparo.q_emb = self.visual.sparo.q_emb\<close>, the hoisting of the text tower's
  submodules, \<^verbatim>\<open>self.visual.width\<close>, \<^verbatim>\<open>text.width\<close>, \<^verbatim>\<open>text.attn_mask\<close>), each of
  which may raise.
\<close>

record clip_args =
  a_embed_dim :: int
  a_vision_cfg :: CLIPVisionCfg
  a_text_cfg :: CLIPTextCfg
  a_quick_gelu :: bool
  a_cast_dtype :: "dtype option"
  a_output_dict :: bool
  a_use_sparo :: bool
  a_sparo_attn_dim :: "int option"
  a_sparo_value_dim :: "int option"
  a_sparo_heads :: "int option"
  a_L :: "int option"
  a_V :: "int option"
  a_reduce_depth :: "int option"
  a_sparo_type :: string
  a_share_kv :: bool
  a_share_queries :: "bool option"
  a_use_codebook :: bool
  a_num_codes :: int
  a_bottleneck_dim :: "int option"

record ('v, 't, 'lin, 'cb, 'q) clip_externals =
  vision_ctors_of :: "'v vision_ctors"
  text_ctors_of :: "'t text_ctors"
  share_q_emb :: "'v \<Rightarrow> 't \<Rightarrow> error + 't"
  nn_Linear :: "int \<Rightarrow> int \<Rightarrow> error + 'lin"
  hoist_text :: "bool \<Rightarrow> bool \<Rightarrow> 't \<Rightarrow> error + unit"
  torch_randn :: "int \<Rightarrow> int \<Rightarrow> error + 'cb"
  visual_width :: "'v \<Rightarrow> error + int"
  text_width :: "'t \<Rightarrow> error + int"
  FDTQueryModel :: "int \<Rightarrow> int \<Rightarrow> error + 'q"
  register_attn_mask :: "'t \<Rightarrow> error + unit"

text \<open>
  The constructed model: the attributes \<^verbatim>\<open>__init__\<close> sets. The hoisted submodules of
  the text tower stay reachable through \<open>c_text\<close>.
\<close>

record ('v, 't, 'lin, 'cb, 'q) clip =
  c_embed_dim :: int
  c_output_dict :: bool
  c_use_sparo :: bool
  c_L :: "int option"
  c_V :: "int option"
  c_sparo_type :: string
  c_use_codebook :: bool
  c_bottleneck_dim :: "int option"
  c_model_V :: "int option"
  c_visual :: 'v
  c_text :: 't
  c_vision_bottleproj :: "'lin option"
  c_text_bottleproj :: "'lin option"
  c_space_dict :: "'cb option"
  c_img_query_model :: "'q option"
  c_txt_query_model :: "'q option"
  c_logit_scale :: real

text \<open>\<^verbatim>\<open>bottleneck_dim or embed_dim\<close>: \<^verbatim>\<open>None\<close> and \<open>0\<close> are falsy.\<close>

definition tower_dim :: "int option \<Rightarrow> int \<Rightarrow> int" where
  "tower_dim bottleneck_dim embed_dim =
     (case bottleneck_dim of None \<Rightarrow> embed_dim | Some b \<Rightarrow> if b = 0 then embed_dim else b)"

text \<open>Lines 307 to 310: one more channel per slot for the softmax weightings.\<close>

definition model_V_of :: "bool \<Rightarrow> string \<Rightarrow> int option \<Rightarrow> error + int option" where
  "model_V_of use_sparo sparo_type V =
     (if \<not> use_sparo \<or> \<not> endswith sparo_type ''softmax'' then Inr V
      else case V of None \<Rightarrow> Inl TypeError | Some v \<Rightarrow> Inr (Some (v + 1)))"

definition bottleneck_projs :: "(int \<Rightarrow> int \<Rightarrow> error + 'lin) \<Rightarrow> int option \<Rightarrow> int \<Rightarrow>
    error + ('lin option \<times> 'lin option)" where
  "bottleneck_projs lin_ctor bottleneck_dim embed_dim =
     (case bottleneck_dim of
        None \<Rightarrow> Inr (None, None)
      | Some b \<Rightarrow>
          bindE (lin_ctor b embed_dim) (\<lambda>vp.
          bindE (lin_ctor b embed_dim) (\<lambda>tp. Inr (Some vp, Some tp))))"

definition codebook_parts :: "('v, 't, 'lin, 'cb, 'q) clip_externals \<Rightarrow> bool \<Rightarrow> int \<Rightarrow> int \<Rightarrow> 'v \<Rightarrow> 't \<Rightarrow>
    error + ('cb option \<times> 'q option \<times> 'q option)" where
  "codebook_parts ext use_codebook num_codes tdim visual txt =
     (if use_codebook then
        bindE (torch_randn ext num_codes tdim) (\<lambda>space_dict.
        bindE (visual_width ext visual) (\<lambda>vw.
        bindE (FDTQueryModel ext vw tdim) (\<lambda>iq.
        bindE (text_width ext txt) (\<lambda>tw.
        bindE (FDTQueryModel ext tw tdim) (\<lambda>tq.
          Inr (Some space_dict, Some iq, Some tq))))))
      else Inr (None, None, None))"

text \<open>
  \<^verbatim>\<open>CLIP.__init__\<close>: the scalar attributes are set, then the guard of line 304 runs,
  then the towers are built (vision first), then the rest is wired.
\<close>

definition CLIP_init ::
  "('v, 't, 'lin, 'cb, 'q) clip_externals \<Rightarrow> clip_args \<Rightarrow> error + ('v, 't, 'lin, 'cb, 'q) clip" where
  "CLIP_init ext a =
     (if a_use_sparo a \<and> a_use_codebook a then Inl ValueError
      else
        bindE (model_V_of (a_use_sparo a) (a_sparo_type a) (a_V a)) (\<lambda>model_V.
        let tdim = tower_dim (a_bottleneck_dim a) (a_embed_dim a);
            sparo = \<lparr> sp_L = a_L a, sp_V = model_V, sp_attn_dim = a_sparo_attn_dim a,
                      sp_value_dim = a_sparo_value_dim a, sp_heads = a_sparo_heads a,
                      sp_share_kv = a_share_kv a \<rparr> in
        bindE (build_vision_tower (vision_ctors_of ext) tdim (a_vision_cfg a) (a_quick_gelu a)
                 (a_cast_dtype a) (a_use_sparo a) sparo (a_reduce_depth a) (a_use_codebook a)) (\<lambda>visual.
        bindE (build_text_tower (text_ctors_of ext) tdim (a_text_cfg a) (a_quick_gelu a)
                 (a_cast_dtype a) (a_use_sparo a) sparo (a_reduce_depth a) (a_use_codebook a)) (\<lambda>txt0.
        bindE (if a_use_sparo a \<and> a_share_queries a = Some True
               then share_q_emb ext visual txt0 else Inr txt0) (\<lambda>txt.
        bindE (bottleneck_projs (nn_Linear ext) (a_bottleneck_dim a) (a_embed_dim a)) (\<lambda>(vp, tp).
        bindE (hoist_text ext (a_use_codebook a) (a_use_sparo a) txt) (\<lambda>_.
        bindE (codebook_parts ext (a_use_codebook a) (a_num_codes a) tdim visual txt) (\<lambda>(space_dict, iq, tq).
        bindE (register_attn_mask ext txt) (\<lambda>_.
          Inr \<lparr> c_embed_dim = a_embed_dim a,
                c_output_dict = a_output_dict a,
                c_use_sparo = a_use_sparo a,
                c_L = a_L a,
                c_V = a_V a,
                c_sparo_type = a_sparo_type a,
                c_use_codebook = a_use_codebook a,
                c_bottleneck_dim = a_bottleneck_dim a,
                c_model_V = model_V,
                c_visual = visual,
                c_text = txt,
                c_vision_bottleproj = vp,
                c_text_bottleproj = tp,
                c_space_dict = space_dict,
                c_img_query_model = iq,
                c_txt_query_model = tq,
                c_logit_scale = ln (1 / 0.07) \<rparr>)))))))))"

section \<open>Slot decomposition\<close>

text \<open>
  \<^verbatim>\<open>CLIP._project_for_sparo\<close> on one flat vector (a rank-1 tensor); every operation
  it uses acts on the last two axes, so the rows of a batch are decomposed one by one.
  Entries are reals: the model is the exact arithmetic the floating-point code
  approximates, without rounding and overflow.

  \<open>view_LV n L V\<close> is \<^verbatim>\<open>x.view(L, V)\<close> on a vector of \<open>n\<close> entries, with torch's
  rules: one dimension may be \<open>-1\<close> and is then inferred, no other negative size is
  allowed, and the sizes must multiply to \<open>n\<close>. \<^verbatim>\<open>None\<close> for a size is a \<^verbatim>\<open>TypeError\<close>.
\<close>

definition view_LV :: "nat \<Rightarrow> int option \<Rightarrow> int option \<Rightarrow> error + (nat \<times> nat)" where
  "view_LV n L V =
     (case (L, V) of
        (Some l, Some v) \<Rightarrow>
          if l < - 1 \<or> v < - 1 then Inl RuntimeError
          else if l = - 1 \<and> v = - 1 then Inl RuntimeError
          else if l = - 1 then
            (if 0 < v \<and> int n mod v = 0 then Inr (n div nat v, nat v) else Inl RuntimeError)
          else if v = - 1 then
            (if 0 < l \<and> int n mod l = 0 then Inr (nat l, n div nat l) else Inl RuntimeError)
          else if l * v = int n then Inr (nat l, nat v) else Inl RuntimeError
      | _ \<Rightarrow> Inl TypeError)"

text \<open>The rows of a row-major \<open>(L, V)\<close> view of a flat vector.\<close>

definition slots :: "nat \<Rightarrow> nat \<Rightarrow> 'a list \<Rightarrow> 'a list list" where
  "slots L V x = map (\<lambda>i. take V (drop (i * V) x)) [0..<L]"

text \<open>\<^verbatim>\<open>str.split(sep)\<close> for a one-character separator.\<close>

fun split_on :: "char \<Rightarrow> string \<Rightarrow> string list" where
  "split_on c [] = [[]]"
| "split_on c (x # xs) =
     (if x = c then [] # split_on c xs
      else case split_on c xs of [] \<Rightarrow> [[x]] | p # ps \<Rightarrow> (x # p) # ps)"

text \<open>\<^verbatim>\<open>rep_type, norm_type = self.sparo_type.split(":")\<close>: exactly two parts, or \<^verbatim>\<open>ValueError\<close>.\<close>

definition parse_sparo_type :: "string \<Rightarrow> error + (string \<times> string)" where
  "parse_sparo_type s =
     (case split_on CHR '':'' s of [r, n] \<Rightarrow> Inr (r, n) | _ \<Rightarrow> Inl ValueError)"

definition l2norm :: "real list \<Rightarrow> real" where
  "l2norm xs = sqrt (sum_list (map (\<lambda>x. x\<^sup>2) xs))"

text \<open>\<^verbatim>\<open>F.softmax\<close> and \<^verbatim>\<open>F.normalize\<close> along one axis, the latter with its default \<open>eps = 1e-12\<close>.\<close>

definition softmax :: "real list \<Rightarrow> real list" where
  "softmax xs = map (\<lambda>x. exp x / sum_list (map exp xs)) xs"

definition F_normalize :: "real list \<Rightarrow> real list" where
  "F_normalize xs = map (\<lambda>x. x / max (l2norm xs) (1 / 10 ^ 12)) xs"

text \<open>
  The weighting branch (lines 388 to 406) on the \<open>(L', V')\<close> view \<open>x\<close>, where \<open>l\<close> is the
  attribute \<^verbatim>\<open>self.L\<close>. The weights have shape \<open>(L', min 1 V')\<close>: the first channel
  \<^verbatim>\<open>x[..., :1]\<close> is flattened to a column, transformed across slots, and put back in
  shape. The result is the weights and the value vectors the representation step gets;
  \<open>None\<close> for the weights stands for weights that hold \<open>nan\<close>.
\<close>

definition first_channel :: "real list list \<Rightarrow> real list" where
  "first_channel x = concat (map (take 1) x)"

definition as_column :: "nat \<Rightarrow> nat \<Rightarrow> real list \<Rightarrow> real list list" where
  "as_column L' V' col = slots L' (min 1 V') col"

definition sparo_weights ::
  "int \<Rightarrow> string \<Rightarrow> string \<Rightarrow> nat \<Rightarrow> nat \<Rightarrow> real list list \<Rightarrow>
     error + (real list list option \<times> real list list)" where
  "sparo_weights l rep_type norm_type L' V' x =
     (if norm_type = ''sqrtsoftmax'' then
        Inr (Some (as_column L' V' (map sqrt (softmax (first_channel x)))), map (drop 1) x)
      else if norm_type = ''softmax'' then
        Inr (Some (as_column L' V' (F_normalize (softmax (first_channel x)))), map (drop 1) x)
      else if norm_type = ''norm'' then
        (if rep_type = ''cont'' \<or> rep_type = ''sqrtsem'' then
           (let norm_in = (if rep_type = ''cont'' then x else map (map (\<lambda>v. exp (v / 2))) x);
                full_norm = l2norm (concat norm_in)
            in if full_norm = 0 \<and> 0 < L' then Inr (None, x)
               else Inr (Some (map (\<lambda>row. [l2norm row / full_norm]) norm_in), x))
         else Inl NotImplementedError)
      else if norm_type = ''const'' then
        (if l \<le> 0 \<and> 0 < L' * min 1 V' then Inr (None, x)
         else Inr (Some (as_column L' V' (replicate (L' * min 1 V') (sqrt (1 / real_of_int l)))), x))
      else Inl NotImplementedError)"

text \<open>The representation branch (lines 407 to 414), slot by slot.\<close>

definition sparo_rep :: "string \<Rightarrow> real list list \<Rightarrow> error + real list list" where
  "sparo_rep rep_type x =
     (if rep_type = ''cont'' then Inr (map F_normalize x)
      else if rep_type = ''sqrtsem'' then Inr (map (\<lambda>row. map sqrt (softmax row)) x)
      else if rep_type = ''sem'' then Inr (map (\<lambda>row. F_normalize (softmax row)) x)
      else Inl NotImplementedError)"

text \<open>
  \<^verbatim>\<open>out_rep * weights\<close>: the weight of a slot is broadcast over its values. Weights
  that hold \<open>nan\<close> make every entry of the product \<open>nan\<close>; a product without entries
  (slots of width zero) is the empty slots all the same.
\<close>

definition scale_slot :: "real list \<Rightarrow> real list \<Rightarrow> real list" where
  "scale_slot row w = (case w of [s] \<Rightarrow> map (\<lambda>v. v * s) row | _ \<Rightarrow> map2 (*) row w)"

definition project_for_sparo ::
  "int option \<Rightarrow> int option \<Rightarrow> string \<Rightarrow> real list \<Rightarrow> error + real list list" where
  "project_for_sparo L model_V sparo_type x =
     bindE (view_LV (length x) L model_V) (\<lambda>(L', V').
     bindE (parse_sparo_type sparo_type) (\<lambda>(rep_type, norm_type).
     bindE (case L of None \<Rightarrow> Inl TypeError
            | Some l \<Rightarrow> sparo_weights l rep_type norm_type L' V' (slots L' V' x)) (\<lambda>(weights, x').
     bindE (sparo_rep rep_type x') (\<lambda>out_rep.
       case weights of
         None \<Rightarrow> if concat out_rep = [] then Inr (map (\<lambda>r. []) out_rep) else Inl NonFinite
       | Some w \<Rightarrow> Inr (map2 scale_slot out_rep w)))))"

text \<open>
  The round-trip property of the spec, in the spec's words: the flattened result is the
  original vector, slot by slot, under the normalisation of the representation mode
  (L2-normalise for \<^verbatim>\<open>cont\<close>, L2-normalise a softmax for \<^verbatim>\<open>sem\<close>), scaled by
  \<open>sqrt (1 / L)\<close>.
\<close>

definition slot_normalization :: "string \<Rightarrow> real list \<Rightarrow> real list" where
  "slot_normalization rep s = (if rep = ''sem'' then F_normalize (softmax s) else F_normalize s)"

definition scaled_slot_normalization :: "string \<Rightarrow> nat \<Rightarrow> nat \<Rightarrow> real list \<Rightarrow> real list" where
  "scaled_slot_normalization rep L V x =
     concat (map (\<lambda>i. map (\<lambda>v. sqrt (1 / real L) * v)
                          (slot_normalization rep (take V (drop (i * V) x)))) [0..<L])"

section \<open>Accepting constructors and default configurations\<close>

text \<open>
  Constructors that accept every argument record and return the call itself as the
  tower. They stand for the external classes wherever a theorem is run on a concrete
  input.
\<close>

datatype vision_call =
    TimmCall timm_args
  | ResNetCall resnet_args
  | ViTCall vit_args bool
  | SparoViTCall vit_args sparo_args

datatype text_call =
    HFCall hf_args
  | TextCall text_args bool
  | SparoTextCall text_args sparo_args

definition accepting_vision_ctors :: "vision_call vision_ctors" where
  "accepting_vision_ctors =
     \<lparr> TimmModel = (\<lambda>a. Inr (TimmCall a)),
       ModifiedResNet = (\<lambda>a. Inr (ResNetCall a)),
       VisionTransformer = (\<lambda>a cb. Inr (ViTCall a cb)),
       SPAROVisionTransformer = (\<lambda>a sp. Inr (SparoViTCall a sp)) \<rparr>"

definition accepting_text_ctors :: "text_call text_ctors" where
  "accepting_text_ctors =
     \<lparr> HFTextEncoder = (\<lambda>a. Inr (HFCall a)),
       TextTransformer = (\<lambda>a cb. Inr (TextCall a cb)),
       SPAROTextTransformer = (\<lambda>a sp. Inr (SparoTextCall a sp)) \<rparr>"

definition accepting_externals ::
  "(vision_call, text_call, int \<times> int, int \<times> int, int \<times> int) clip_externals" where
  "accepting_externals =
     \<lparr> vision_ctors_of = accepting_vision_ctors,
       text_ctors_of = accepting_text_ctors,
       share_q_emb = (\<lambda>v t. Inr t),
       nn_Linear = (\<lambda>i out. Inr (i, out)),
       hoist_text = (\<lambda>cb sp t. Inr ()),
       torch_randn = (\<lambda>n d. Inr (n, d)),
       visual_width = (\<lambda>v. case v of ViTCall a cb \<Rightarrow> Inr (vt_width a)
                              | SparoViTCall a sp \<Rightarrow> Inr (vt_width a)
                              | ResNetCall a \<Rightarrow> Inr (rn_width a)
                              | TimmCall a \<Rightarrow> Inl AttributeError),
       text_width = (\<lambda>t. case t of TextCall a cb \<Rightarrow> Inr (tt_width a)
                            | SparoTextCall a sp \<Rightarrow> Inr (tt_width a)
                            | HFCall a \<Rightarrow> Inl AttributeError),
       FDTQueryModel = (\<lambda>w d. Inr (w, d)),
       register_attn_mask = (\<lambda>t. Inr ()) \<rparr>"

text \<open>The field defaults of the two dataclasses and of \<^verbatim>\<open>CLIP.__init__\<close>.\<close>

definition default_vision_cfg :: CLIPVisionCfg where
  "default_vision_cfg =
     \<lparr> v_layers = Scalar 12, v_width = 768, v_head_width = 64, v_mlp_ratio = 4,
       v_patch_size = Some 16, v_image_size = Square 224, v_ls_init_value = None,
       v_patch_dropout = 0, v_input_patchnorm = False, v_global_average_pool = False,
       v_attentional_pool = False, v_n_queries = 256, v_attn_pooler_heads = 8,
       v_output_tokens = False, v_timm_model_name = None, v_timm_model_pretrained = False,
       v_timm_pool = ''avg'', v_timm_proj = ''linear'', v_timm_proj_bias = False,
       v_timm_drop = 0, v_timm_drop_path = None \<rparr>"

definition default_text_cfg :: CLIPTextCfg where
  "default_text_cfg =
     \<lparr> t_context_length = 77, t_vocab_size = 49408, t_width = 512, t_heads = 8, t_layers = 12,
       t_ls_init_value = None, t_hf_model_name = None, t_hf_tokenizer_name = None,
       t_hf_model_pretrained = True, t_proj = ''mlp'', t_pooler_type = ''mean_pooler'',
       t_embed_cls = False, t_pad_id = 0, t_output_tokens = False,
       t_global_average_pool = False, t_attentional_pool = False, t_n_queries = 256,
       t_attn_pooler_heads = 8 \<rparr>"

definition default_clip_args :: "int \<Rightarrow> CLIPVisionCfg \<Rightarrow> CLIPTextCfg \<Rightarrow> clip_args" where
  "default_clip_args embed_dim vcfg tcfg =
     \<lparr> a_embed_dim = embed_dim, a_vision_cfg = vcfg, a_text_cfg = tcfg, a_quick_gelu = False,
       a_cast_dtype = None, a_output_dict = False, a_use_sparo = False, a_sparo_attn_dim = None,
       a_sparo_value_dim = None, a_sparo_heads = None, a_L = None, a_V = None,
       a_reduce_depth = Some 0, a_sparo_type = ''cont:const'', a_share_kv = True,
       a_share_queries = Some False, a_use_codebook = False, a_num_codes = 16384,
       a_bottleneck_dim = None \<rparr>"


section \<open>The composite model: encoding\<close>

text \<open>
  What \<^verbatim>\<open>encode_image\<close> and \<^verbatim>\<open>encode_text\<close> call outside this module, each call
  possibly raising: the forward pass of the vision tower, the query models of the
  codebook mode, the bottleneck projections, \<^verbatim>\<open>F.normalize\<close> on a feature tensor, the
  unpacking \<^verbatim>\<open>out, attn = features\<close> of the structured tower's output into the rows of
  the batch and the attention weights, and for text the trunk of lines 440 to 447
  (embedding, positional embedding, transformer), the attentional pooler (absent
  when the attribute is \<^verbatim>\<open>None\<close>), the final layer norm, the poolings, the text
  projection and the text tower's slot module, whose output is taken as the flat
  row-major list of its entries.
\<close>

record ('v, 't, 'lin, 'cb, 'q, 'img, 'tok, 'x, 'at) forward_externals =
  visual_forward :: "'v \<Rightarrow> 'img \<Rightarrow> error + 'x"
  query_model :: "'q \<Rightarrow> 'x \<Rightarrow> 'cb \<Rightarrow> 'tok option \<Rightarrow> error + 'x"
  bottleproj :: "'lin \<Rightarrow> 'x \<Rightarrow> error + 'x"
  normalize_features :: "'x \<Rightarrow> error + 'x"
  unpack_sparo :: "'x \<Rightarrow> error + (real list list \<times> 'at)"
  text_trunk :: "'t \<Rightarrow> 'tok \<Rightarrow> error + 'x"
  text_attn_pool :: "'t \<Rightarrow> ('x \<Rightarrow> 'tok \<Rightarrow> error + 'x) option"
  ln_final :: "'t \<Rightarrow> 'x \<Rightarrow> error + 'x"
  text_global_average_pool :: "'t \<Rightarrow> bool"
  mean_over_tokens :: "'x \<Rightarrow> error + 'x"
  first_token :: "'x \<Rightarrow> error + 'x"
  eot_token :: "'x \<Rightarrow> 'tok \<Rightarrow> error + 'x"
  text_projection :: "'t \<Rightarrow> 'x \<Rightarrow> error + 'x"
  text_sparo :: "'t \<Rightarrow> 'x \<Rightarrow> 'tok \<Rightarrow> error + (real list \<times> 'at)"

text \<open>What an encoder returns: a feature tensor, the slots of every row (with the
  attention weights when asked for), or the flattened slots of every row.\<close>

datatype ('x, 'at) encoded =
    Features 'x
  | Sparo "real list list list"
  | SparoAttn "real list list list" 'at
  | Flat "real list list"

text \<open>A fallible function over the rows of a batch, stopping at the first exception.\<close>

fun mapE :: "('a \<Rightarrow> error + 'b) \<Rightarrow> 'a list \<Rightarrow> error + 'b list" where
  "mapE f [] = Inr []"
| "mapE f (x # xs) = bindE (f x) (\<lambda>y. bindE (mapE f xs) (\<lambda>ys. Inr (y # ys)))"

text \<open>Lines 429 to 437 and 477 to 485: decompose, then return the slots or flatten them.\<close>

definition sparo_output ::
  "('v, 't, 'lin, 'cb, 'q) clip \<Rightarrow> bool \<Rightarrow> bool \<Rightarrow> real list list \<Rightarrow> 'at \<Rightarrow> error + ('x, 'at) encoded" where
  "sparo_output m return_sparo return_attn rows attn =
     bindE (mapE (project_for_sparo (c_L m) (c_model_V m) (c_sparo_type m)) rows) (\<lambda>out.
       if return_sparo then (if return_attn then Inr (SparoAttn out attn) else Inr (Sparo out))
       else Inr (Flat (map concat out)))"

definition opt_attr :: "'a option \<Rightarrow> error + 'a" where
  "opt_attr a = (case a of None \<Rightarrow> Inl AttributeError | Some v \<Rightarrow> Inr v)"

definition encode_image ::
  "('v, 't, 'lin, 'cb, 'q, 'img, 'tok, 'x, 'at) forward_externals \<Rightarrow> ('v, 't, 'lin, 'cb, 'q) clip \<Rightarrow>
     'img \<Rightarrow> bool \<Rightarrow> bool \<Rightarrow> bool \<Rightarrow> error + ('x, 'at) encoded" where
  "encode_image fx m img do_normalize return_sparo return_attn =
     bindE (visual_forward fx (c_visual m) img) (\<lambda>features.
       if \<not> c_use_sparo m then
         bindE (if c_use_codebook m
                then bindE (opt_attr (c_img_query_model m)) (\<lambda>q.
                     bindE (opt_attr (c_space_dict m)) (\<lambda>sd. query_model fx q features sd None))
                else Inr features) (\<lambda>features.
         bindE (if c_bottleneck_dim m \<noteq> None
                then bindE (opt_attr (c_vision_bottleproj m)) (\<lambda>p. bottleproj fx p features)
                else Inr features) (\<lambda>features.
         if do_normalize then bindE (normalize_features fx features) (\<lambda>f. Inr (Features f))
         else Inr (Features features)))
       else if \<not> do_normalize then Inl AssertionError
       else
         bindE (unpack_sparo fx features) (\<lambda>(out, attn).
           sparo_output m return_sparo return_attn out attn))"

text \<open>\<^verbatim>\<open>out.view(-1, self.L * self.model_V)\<close> on the flat output of the slot module.\<close>

definition view_rows :: "int option \<Rightarrow> int option \<Rightarrow> real list \<Rightarrow> error + real list list" where
  "view_rows L model_V out =
     (case (L, model_V) of
        (Some l, Some v) \<Rightarrow>
          (let n = l * v in
           if 0 < n \<and> int (length out) mod n = 0
           then Inr (slots (length out div nat n) (nat n) out)
           else Inl RuntimeError)
      | _ \<Rightarrow> Inl TypeError)"

text \<open>Lines 440 to 451: the hidden states, pooled and normalised unless in codebook mode.\<close>

definition text_hidden ::
  "('v, 't, 'lin, 'cb, 'q, 'img, 'tok, 'x, 'at) forward_externals \<Rightarrow> ('v, 't, 'lin, 'cb, 'q) clip \<Rightarrow>
     'tok \<Rightarrow> error + 'x" where
  "text_hidden fx m toks =
     bindE (text_trunk fx (c_text m) toks) (\<lambda>x.
       if \<not> c_use_codebook m
       then bindE (case text_attn_pool fx (c_text m) of
                     None \<Rightarrow> Inr x | Some pool \<Rightarrow> pool x toks) (\<lambda>x.
            ln_final fx (c_text m) x)
       else Inr x)"

definition encode_text ::
  "('v, 't, 'lin, 'cb, 'q, 'img, 'tok, 'x, 'at) forward_externals \<Rightarrow> ('v, 't, 'lin, 'cb, 'q) clip \<Rightarrow>
     'tok \<Rightarrow> bool \<Rightarrow> bool \<Rightarrow> bool \<Rightarrow> error + ('x, 'at) encoded" where
  "encode_text fx m toks do_normalize return_sparo return_attn =
     bindE (text_hidden fx m toks) (\<lambda>x.
       if \<not> c_use_sparo m then
         bindE (if \<not> c_use_codebook m then
                  bindE (if text_attn_pool fx (c_text m) \<noteq> None then
                           (if text_global_average_pool fx (c_text m)
                            then mean_over_tokens fx x else first_token fx x)
                         else
                           (if text_global_average_pool fx (c_text m)
                            then Inl NotImplementedError else eot_token fx x toks)) (\<lambda>x.
                  text_projection fx (c_text m) x)
                else
                  bindE (opt_attr (c_txt_query_model m)) (\<lambda>q.
                  bindE (opt_attr (c_space_dict m)) (\<lambda>sd. query_model fx q x sd (Some toks)))) (\<lambda>x.
         bindE (if c_bottleneck_dim m \<noteq> None
                then bindE (opt_attr (c_text_bottleproj m)) (\<lambda>p. bottleproj fx p x)
                else Inr x) (\<lambda>x.
         if do_normalize then bindE (normalize_features fx x) (\<lambda>f. Inr (Features f))
         else Inr (Features x)))
       else if \<not> do_normalize then Inl AssertionError
       else
         bindE (text_sparo fx (c_text m) x toks) (\<lambda>(out, attn).
         bindE (view_rows (c_L m) (c_model_V m) out) (\<lambda>rows.
           sparo_output m return_sparo return_attn rows attn)))"

section \<open>State dicts\<close>

text \<open>
  A tensor of a state dict: its shape and its entries in row-major order. The element
  type is a parameter; no branch of the functions below reads an entry or a dtype. A
  state dict is an association list in insertion order, as Python's \<^verbatim>\<open>dict\<close>.
\<close>

record 'a tensor =
  shape :: "nat list"
  entries :: "'a list"

type_synonym 'a state_dict = "(string \<times> 'a tensor) list"

definition well_shaped :: "'a tensor \<Rightarrow> bool" where
  "well_shaped t = (length (entries t) = prod_list (shape t))"

text \<open>\<^verbatim>\<open>state_dict[key]\<close>, \<^verbatim>\<open>t.shape[0]\<close>, \<^verbatim>\<open>t.shape[1]\<close> and \<^verbatim>\<open>t.shape[-1]\<close>.\<close>

definition lookup :: "'a state_dict \<Rightarrow> string \<Rightarrow> error + 'a tensor" where
  "lookup sd k = (case map_of sd k of None \<Rightarrow> Inl KeyError | Some t \<Rightarrow> Inr t)"

definition shape_at :: "nat \<Rightarrow> 'a tensor \<Rightarrow> error + nat" where
  "shape_at i t = (if i < length (shape t) then Inr (shape t ! i) else Inl IndexError)"

definition shape_last :: "'a tensor \<Rightarrow> error + nat" where
  "shape_last t = (case shape t of [] \<Rightarrow> Inl IndexError | n # ns \<Rightarrow> Inr (last (n # ns)))"

text \<open>
  The integer square roots behind \<^verbatim>\<open>int(math.sqrt(n))\<close> and \<^verbatim>\<open>round(n ** 0.5)\<close>
  for a natural number \<open>n\<close>: the floor of the root, and the nearest integer to it
  (the root of an integer is never half way between two integers).
\<close>

fun floor_sqrt :: "nat \<Rightarrow> nat" where
  "floor_sqrt 0 = 0"
| "floor_sqrt (Suc n) =
     (let r = floor_sqrt n in if (r + 1) * (r + 1) \<le> Suc n then r + 1 else r)"

definition round_sqrt :: "nat \<Rightarrow> nat" where
  "round_sqrt n = (let s = floor_sqrt n in if n - s * s \<le> s then s else s + 1)"

text \<open>\<^verbatim>\<open>round((rows - 1) ** 0.5)\<close>: for \<open>rows = 0\<close> the power is complex and \<^verbatim>\<open>round\<close>
  raises \<^verbatim>\<open>TypeError\<close>.\<close>

definition grid_of_rows :: "nat \<Rightarrow> error + nat" where
  "grid_of_rows rows = (if rows = 0 then Inl TypeError else Inr (round_sqrt (rows - 1)))"

text \<open>\<^verbatim>\<open>len(set(k.split(".")[2] for k in state_dict if k.startswith(prefix)))\<close>.\<close>

definition third_part :: "string \<Rightarrow> error + string" where
  "third_part k =
     (case split_on CHR ''.'' k of a # b # c # rest \<Rightarrow> Inr c | _ \<Rightarrow> Inl IndexError)"

definition count_blocks :: "'a state_dict \<Rightarrow> string \<Rightarrow> error + nat" where
  "count_blocks sd prefix =
     bindE (mapE third_part (filter (\<lambda>k. startswith k prefix) (map fst sd)))
       (\<lambda>parts. Inr (length (remdups parts)))"

section \<open>The legacy-checkpoint adapter\<close>

text \<open>Lines 616 to 633: the vision hyperparameters, read off the keys and shapes.\<close>

record vision_shape =
  vs_layers :: layers_cfg
  vs_width :: nat
  vs_patch_size :: "nat option"
  vs_image_size :: nat

definition infer_vision :: "'a state_dict \<Rightarrow> error + vision_shape" where
  "infer_vision sd =
     (if map_of sd ''visual.proj'' \<noteq> None then
        bindE (lookup sd ''visual.conv1.weight'') (\<lambda>conv1.
        bindE (shape_at 0 conv1) (\<lambda>vision_width.
        let vision_layers =
              length (filter (\<lambda>k. startswith k ''visual.'' \<and> endswith k ''.attn.in_proj_weight'')
                        (map fst sd)) in
        bindE (shape_last conv1) (\<lambda>vision_patch_size.
        bindE (lookup sd ''visual.positional_embedding'') (\<lambda>pos.
        bindE (shape_at 0 pos) (\<lambda>rows.
        bindE (grid_of_rows rows) (\<lambda>grid_size.
          Inr \<lparr> vs_layers = Scalar (int vision_layers),
                vs_width = vision_width,
                vs_patch_size = Some vision_patch_size,
                vs_image_size = vision_patch_size * grid_size \<rparr>))))))
      else
        bindE (count_blocks sd ''visual.layer1'') (\<lambda>c1.
        bindE (count_blocks sd ''visual.layer2'') (\<lambda>c2.
        bindE (count_blocks sd ''visual.layer3'') (\<lambda>c3.
        bindE (count_blocks sd ''visual.layer4'') (\<lambda>c4.
        bindE (lookup sd ''visual.layer1.0.conv1.weight'') (\<lambda>conv1.
        bindE (shape_at 0 conv1) (\<lambda>vision_width.
        bindE (lookup sd ''visual.attnpool.positional_embedding'') (\<lambda>pos.
        bindE (shape_at 0 pos) (\<lambda>rows.
        bindE (grid_of_rows rows) (\<lambda>output_width.
          if output_width ^ 2 + 1 \<noteq> rows then Inl AssertionError
          else
            Inr \<lparr> vs_layers = Stages (int c1) (int c2) (int c3) (int c4),
                  vs_width = vision_width,
                  vs_patch_size = None,
                  vs_image_size = output_width * 32 \<rparr>))))))))))"

text \<open>Lines 635 to 640: the text hyperparameters.\<close>

record text_shape =
  ts_embed_dim :: nat
  ts_context_length :: nat
  ts_vocab_size :: nat
  ts_width :: nat
  ts_heads :: nat
  ts_layers :: nat

definition infer_text :: "'a state_dict \<Rightarrow> error + text_shape" where
  "infer_text sd =
     bindE (lookup sd ''text_projection'') (\<lambda>tp.
     bindE (shape_at 1 tp) (\<lambda>embed_dim.
     bindE (lookup sd ''positional_embedding'') (\<lambda>pe.
     bindE (shape_at 0 pe) (\<lambda>context_length.
     bindE (lookup sd ''token_embedding.weight'') (\<lambda>te.
     bindE (shape_at 0 te) (\<lambda>vocab_size.
     bindE (lookup sd ''ln_final.weight'') (\<lambda>ln.
     bindE (shape_at 0 ln) (\<lambda>transformer_width.
     bindE (count_blocks sd ''transformer.resblocks'') (\<lambda>transformer_layers.
       Inr \<lparr> ts_embed_dim = embed_dim,
             ts_context_length = context_length,
             ts_vocab_size = vocab_size,
             ts_width = transformer_width,
             ts_heads = transformer_width div 64,
             ts_layers = transformer_layers \<rparr>)))))))))"

text \<open>Lines 642 to 654: the two configs, every other field at its default.\<close>

definition vision_cfg_of :: "vision_shape \<Rightarrow> CLIPVisionCfg" where
  "vision_cfg_of vs =
     default_vision_cfg
       \<lparr> v_layers := vs_layers vs,
         v_width := int (vs_width vs),
         v_patch_size := map_option int (vs_patch_size vs),
         v_image_size := Square (int (vs_image_size vs)) \<rparr>"

definition text_cfg_of :: "text_shape \<Rightarrow> CLIPTextCfg" where
  "text_cfg_of ts =
     default_text_cfg
       \<lparr> t_context_length := int (ts_context_length ts),
         t_vocab_size := int (ts_vocab_size ts),
         t_width := int (ts_width ts),
         t_heads := int (ts_heads ts),
         t_layers := int (ts_layers ts) \<rparr>"

text \<open>Lines 663 and 664: \<^verbatim>\<open>state_dict.pop(key, None)\<close> for each key of the list.\<close>

definition pop_keys :: "string list \<Rightarrow> 'a state_dict \<Rightarrow> 'a state_dict" where
  "pop_keys ks sd = fold AList.delete ks sd"

definition metadata_keys :: "string list" where
  "metadata_keys = [''input_resolution'', ''context_length'', ''vocab_size'']"

section \<open>Precision conversion\<close>

text \<open>
  A parameter tensor as the converter sees it: a dtype and a payload. \<^verbatim>\<open>t.to(dtype)\<close>
  returns \<open>t\<close> itself when \<open>t\<close> already has that dtype, and otherwise a tensor of the
  new dtype; how the payload is rounded is the parameter \<open>cast\<close>. Parameters live in a
  store, so that two attributes may name the same tensor.

  A module is the list of the converter's classes it is an instance of (as
  \<^verbatim>\<open>isinstance\<close> sees it, subclasses included), its attributes (\<open>None\<close> for an
  attribute that is \<^verbatim>\<open>None\<close>, an address for a tensor) and its child modules.
\<close>

record 'p param =
  p_dtype :: dtype
  p_payload :: 'p

type_synonym 'p store = "nat \<Rightarrow> 'p param"

type_synonym 'p cast = "dtype \<Rightarrow> dtype \<Rightarrow> 'p \<Rightarrow> 'p"

datatype cls =
    K_Conv1d
  | K_Conv2d
  | K_Linear
  | K_MultiheadAttention
  | K_Attention
  | K_CLIP
  | K_TextTransformer
  | K_VisionTransformer

datatype module = Module (classes: "cls list") (attrs: "(string \<times> nat option) list") (children: "module list")

definition to_dtype :: "'p cast \<Rightarrow> dtype \<Rightarrow> 'p param \<Rightarrow> 'p param" where
  "to_dtype cast d t =
     (if p_dtype t = d then t else \<lparr> p_dtype = d, p_payload = cast (p_dtype t) d (p_payload t) \<rparr>)"

text \<open>\<^verbatim>\<open>tensor.data = tensor.data.to(dtype)\<close> for the tensor at an address.\<close>

definition convert_at :: "'p cast \<Rightarrow> dtype \<Rightarrow> nat \<Rightarrow> 'p store \<Rightarrow> 'p store" where
  "convert_at cast d a st = st(a := to_dtype cast d (st a))"

definition isinstance :: "module \<Rightarrow> cls list \<Rightarrow> bool" where
  "isinstance l ks = (\<exists>k \<in> set ks. k \<in> set (classes l))"

text \<open>\<^verbatim>\<open>getattr(l, name)\<close> raises for a missing attribute; \<^verbatim>\<open>getattr(l, name, None)\<close> does not.\<close>

definition getattr :: "module \<Rightarrow> string \<Rightarrow> error + nat option" where
  "getattr l name = (case map_of (attrs l) name of None \<Rightarrow> Inl AttributeError | Some v \<Rightarrow> Inr v)"

definition getattr_default :: "module \<Rightarrow> string \<Rightarrow> nat option" where
  "getattr_default l name = (case map_of (attrs l) name of None \<Rightarrow> None | Some v \<Rightarrow> v)"

text \<open>
  A step of the converter takes the store and returns the exception, if one was raised,
  and the store as the step left it.
\<close>

definition seqS ::
  "('s \<Rightarrow> error option \<times> 's) \<Rightarrow> ('s \<Rightarrow> error option \<times> 's) \<Rightarrow> 's \<Rightarrow> error option \<times> 's" where
  "seqS f g st = (case f st of (None, st') \<Rightarrow> g st' | (Some e, st') \<Rightarrow> (Some e, st'))"

text \<open>Lines 563 to 566: \<^verbatim>\<open>l.weight.data\<close> needs a tensor, \<^verbatim>\<open>l.bias\<close> may be \<^verbatim>\<open>None\<close>.\<close>

definition convert_weight_bias :: "'p cast \<Rightarrow> dtype \<Rightarrow> module \<Rightarrow> 'p store \<Rightarrow> error option \<times> 'p store" where
  "convert_weight_bias cast d l st =
     (case getattr l ''weight'' of
        Inl e \<Rightarrow> (Some e, st)
      | Inr None \<Rightarrow> (Some AttributeError, st)
      | Inr (Some w) \<Rightarrow>
          (let st1 = convert_at cast d w st in
           case getattr l ''bias'' of
             Inl e \<Rightarrow> (Some e, st1)
           | Inr None \<Rightarrow> (None, st1)
           | Inr (Some b) \<Rightarrow> (None, convert_at cast d b st1)))"

text \<open>Lines 569 to 572: the loop over the attribute names of an attention layer.\<close>

fun convert_attrs :: "'p cast \<Rightarrow> dtype \<Rightarrow> module \<Rightarrow> string list \<Rightarrow> 'p store \<Rightarrow> error option \<times> 'p store" where
  "convert_attrs cast d l [] st = (None, st)"
| "convert_attrs cast d l (a # as) st =
     (case getattr l a of
        Inl e \<Rightarrow> (Some e, st)
      | Inr None \<Rightarrow> convert_attrs cast d l as st
      | Inr (Some p) \<Rightarrow> convert_attrs cast d l as (convert_at cast d p st))"

definition attention_attrs :: "string list" where
  "attention_attrs =
     [''in_proj_weight'', ''q_proj_weight'', ''k_proj_weight'', ''v_proj_weight'',
      ''in_proj_bias'', ''bias_k'', ''bias_v'']"

text \<open>Lines 576 to 578 and 582 to 584: a projection parameter that may be absent.\<close>

definition convert_optional :: "'p cast \<Rightarrow> dtype \<Rightarrow> module \<Rightarrow> string \<Rightarrow> 'p store \<Rightarrow> error option \<times> 'p store" where
  "convert_optional cast d l name st =
     (case getattr_default l name of
        None \<Rightarrow> (None, st)
      | Some p \<Rightarrow> (None, convert_at cast d p st))"

definition skip :: "'s \<Rightarrow> error option \<times> 's" where
  "skip st = (None, st)"

text \<open>The inner function \<^verbatim>\<open>_convert_weights\<close>: four independent \<^verbatim>\<open>if\<close> statements.\<close>

definition convert_weights :: "'p cast \<Rightarrow> dtype \<Rightarrow> module \<Rightarrow> 'p store \<Rightarrow> error option \<times> 'p store" where
  "convert_weights cast d l =
     seqS (if isinstance l [K_Conv1d, K_Conv2d, K_Linear] then convert_weight_bias cast d l else skip)
    (seqS (if isinstance l [K_MultiheadAttention, K_Attention]
           then convert_attrs cast d l attention_attrs else skip)
    (seqS (if isinstance l [K_CLIP, K_TextTransformer]
           then convert_optional cast d l ''text_projection'' else skip)
          (if isinstance l [K_VisionTransformer]
           then convert_optional cast d l ''proj'' else skip)))"

text \<open>\<^verbatim>\<open>nn.Module.apply(fn)\<close>: the children first, in order, then the module itself.\<close>

fun module_apply ::
    "(module \<Rightarrow> 's \<Rightarrow> error option \<times> 's) \<Rightarrow> module \<Rightarrow> 's \<Rightarrow> error option \<times> 's"
  and apply_children ::
    "(module \<Rightarrow> 's \<Rightarrow> error option \<times> 's) \<Rightarrow> module list \<Rightarrow> 's \<Rightarrow> error option \<times> 's" where
  "module_apply fn (Module ks as ch) st =
     (case apply_children fn ch st of
        (None, st') \<Rightarrow> fn (Module ks as ch) st'
      | (Some e, st') \<Rightarrow> (Some e, st'))"
| "apply_children fn [] st = (None, st)"
| "apply_children fn (m # ms) st =
     (case module_apply fn m st of
        (None, st') \<Rightarrow> apply_children fn ms st'
      | (Some e, st') \<Rightarrow> (Some e, st'))"

definition convert_weights_to_lp :: "'p cast \<Rightarrow> dtype \<Rightarrow> module \<Rightarrow> 'p store \<Rightarrow> error option \<times> 'p store" where
  "convert_weights_to_lp cast d model st = module_apply (convert_weights cast d) model st"

text \<open>\<^verbatim>\<open>convert_weights_to_fp16 = convert_weights_to_lp\<close>, called with the default dtype.\<close>

definition convert_weights_to_fp16 :: "'p cast \<Rightarrow> module \<Rightarrow> 'p store \<Rightarrow> error option \<times> 'p store" where
  "convert_weights_to_fp16 cast model st = convert_weights_to_lp cast Float16 model st"

text \<open>
  \<^verbatim>\<open>build_model_from_openai_state_dict\<close>. Outside this module are the module tree and the
  parameter store of the constructed model (torch's module registry), the rounding of
  a payload, \<^verbatim>\<open>load_state_dict\<close> and \<^verbatim>\<open>eval\<close>. The function returns the model; the
  dict it has mutated in place is returned with it.
\<close>

record ('v, 't, 'lin, 'cb, 'q, 'p, 'a, 'm) build_externals =
  b_clip :: "('v, 't, 'lin, 'cb, 'q) clip_externals"
  b_module :: "('v, 't, 'lin, 'cb, 'q) clip \<Rightarrow> module"
  b_store :: "('v, 't, 'lin, 'cb, 'q) clip \<Rightarrow> 'p store"
  b_cast :: "'p cast"
  b_load_state_dict :: "('v, 't, 'lin, 'cb, 'q) clip \<Rightarrow> 'p store \<Rightarrow> 'a state_dict \<Rightarrow> error + 'm"
  b_eval :: "'m \<Rightarrow> 'm"

definition build_model_from_openai_state_dict ::
  "('v, 't, 'lin, 'cb, 'q, 'p, 'a, 'm) build_externals \<Rightarrow> 'a state_dict \<Rightarrow> bool \<Rightarrow> dtype option \<Rightarrow>
     error + ('m \<times> 'a state_dict)" where
  "build_model_from_openai_state_dict ext sd quick_gelu cast_dtype =
     bindE (infer_vision sd) (\<lambda>vs.
     bindE (infer_text sd) (\<lambda>ts.
     bindE (CLIP_init (b_clip ext)
              ((default_clip_args (int (ts_embed_dim ts)) (vision_cfg_of vs) (text_cfg_of ts))
                 \<lparr> a_quick_gelu := quick_gelu, a_cast_dtype := cast_dtype \<rparr>)) (\<lambda>model.
     let sd' = pop_keys metadata_keys sd in
     case convert_weights_to_fp16 (b_cast ext) (b_module ext model) (b_store ext model) of
       (Some e, st) \<Rightarrow> Inl e
     | (None, st) \<Rightarrow>
         bindE (b_load_state_dict ext model st sd') (\<lambda>loaded.
           Inr (b_eval ext loaded, sd')))))"

section \<open>Position-embedding resize\<close>

text \<open>
  Torch's shape inference for \<^verbatim>\<open>reshape\<close>: at most one size is \<open>-1\<close> and is inferred
  from the number of entries, no other size is negative, and the sizes multiply to the
  number of entries.
\<close>

definition infer_size :: "int list \<Rightarrow> nat \<Rightarrow> error + nat list" where
  "infer_size dims n =
     (if list_ex (\<lambda>d. d < - 1) dims then Inl RuntimeError
      else
        let k = length (filter (\<lambda>d. d = - 1) dims);
            p = prod_list (filter (\<lambda>d. d \<noteq> - 1) dims) in
        if 1 < k then Inl RuntimeError
        else if k = 1 then
          (if p \<noteq> 0 \<and> int n mod p = 0
           then Inr (map (\<lambda>d. if d = - 1 then n div nat p else nat d) dims)
           else Inl RuntimeError)
        else if p = int n then Inr (map nat dims) else Inl RuntimeError)"

definition reshape :: "int list \<Rightarrow> 'a tensor \<Rightarrow> error + 'a tensor" where
  "reshape dims t =
     bindE (infer_size dims (prod_list (shape t))) (\<lambda>s. Inr \<lparr> shape = s, entries = entries t \<rparr>)"

text \<open>\<^verbatim>\<open>permute(0, 3, 1, 2)\<close> and \<^verbatim>\<open>permute(0, 2, 3, 1)\<close> of a rank-4 tensor.\<close>

definition permute_0312 :: "'a tensor \<Rightarrow> error + 'a tensor" where
  "permute_0312 t =
     (case shape t of
        [n, h, w, c] \<Rightarrow>
          Inr \<lparr> shape = [n, c, h, w],
                entries = concat (map (\<lambda>a. concat (map (\<lambda>k. concat (map (\<lambda>i. map (\<lambda>j.
                            entries t ! (((a * h + i) * w + j) * c + k))
                          [0..<w]) [0..<h])) [0..<c])) [0..<n]) \<rparr>
      | _ \<Rightarrow> Inl RuntimeError)"

definition permute_0231 :: "'a tensor \<Rightarrow> error + 'a tensor" where
  "permute_0231 t =
     (case shape t of
        [n, c, h, w] \<Rightarrow>
          Inr \<lparr> shape = [n, h, w, c],
                entries = concat (map (\<lambda>a. concat (map (\<lambda>i. concat (map (\<lambda>j. map (\<lambda>k.
                            entries t ! (((a * c + k) * h + i) * w + j))
                          [0..<c]) [0..<w])) [0..<h])) [0..<n]) \<rparr>
      | _ \<Rightarrow> Inl RuntimeError)"

text \<open>\<^verbatim>\<open>t[:k]\<close> and \<^verbatim>\<open>t[k:]\<close> along the first axis of a tensor of rank at least one.\<close>

definition take_rows :: "nat \<Rightarrow> 'a tensor \<Rightarrow> 'a tensor" where
  "take_rows k t =
     (case shape t of
        [] \<Rightarrow> t
      | n # rest \<Rightarrow> \<lparr> shape = min k n # rest, entries = take (min k n * prod_list rest) (entries t) \<rparr>)"

definition drop_rows :: "nat \<Rightarrow> 'a tensor \<Rightarrow> 'a tensor" where
  "drop_rows k t =
     (case shape t of
        [] \<Rightarrow> t
      | n # rest \<Rightarrow> \<lparr> shape = (n - k) # rest, entries = drop (k * prod_list rest) (entries t) \<rparr>)"

text \<open>\<^verbatim>\<open>t[0]\<close>.\<close>

definition index_first :: "'a tensor \<Rightarrow> error + 'a tensor" where
  "index_first t =
     (case shape t of
        [] \<Rightarrow> Inl IndexError
      | n # rest \<Rightarrow>
          if n = 0 then Inl IndexError
          else Inr \<lparr> shape = rest, entries = take (prod_list rest) (entries t) \<rparr>)"

text \<open>
  \<^verbatim>\<open>torch.cat([a, b], dim=0)\<close>: the shapes must agree after the first axis; a tensor of
  shape \<open>(0,)\<close> is skipped.
\<close>

definition cat_rows :: "'a tensor \<Rightarrow> 'a tensor \<Rightarrow> error + 'a tensor" where
  "cat_rows a b =
     (if shape a = [0] then Inr b
      else if shape b = [0] then Inr a
      else case (shape a, shape b) of
             (n # ra, m # rb) \<Rightarrow>
               if ra = rb then Inr \<lparr> shape = (n + m) # ra, entries = entries a @ entries b \<rparr>
               else Inl RuntimeError
           | _ \<Rightarrow> Inl RuntimeError)"

text \<open>
  \<^verbatim>\<open>to_2tuple\<close> (from \<^verbatim>\<open>utils\<close>, not part of this module): an int becomes a pair of
  itself, a pair is returned as it is.
\<close>

definition to_2tuple :: "size_cfg \<Rightarrow> int \<times> int" where
  "to_2tuple g = (case g of Square n \<Rightarrow> (n, n) | Rect a b \<Rightarrow> (a, b))"

text \<open>
  \<^verbatim>\<open>resize_pos_embed\<close>. \<open>interp\<close> is \<^verbatim>\<open>F.interpolate\<close> with \<^verbatim>\<open>align_corners=False\<close>,
  taking the tensor, the target size, the mode and the antialias flag; \<open>grid\<close> is
  \<^verbatim>\<open>model.visual.grid_size\<close>, \<open>None\<close> when the tower has no such attribute. The function
  mutates the dict; the model returns it.
\<close>

definition pos_key :: string where
  "pos_key = ''visual.positional_embedding''"

definition resize_pos_embed ::
  "('a tensor \<Rightarrow> int \<times> int \<Rightarrow> string \<Rightarrow> bool \<Rightarrow> error + 'a tensor) \<Rightarrow> 'a state_dict \<Rightarrow>
     size_cfg option \<Rightarrow> string \<Rightarrow> bool \<Rightarrow> error + 'a state_dict" where
  "resize_pos_embed interp sd grid interpolation antialias =
     (case map_of sd pos_key of
        None \<Rightarrow> Inr sd
      | Some old_pos_embed \<Rightarrow>
          (case grid of
             None \<Rightarrow> Inr sd
           | Some g \<Rightarrow>
               (let grid_size = to_2tuple g;
                    new_seq_len = fst grid_size * snd grid_size + 1 in
                bindE (shape_at 0 old_pos_embed) (\<lambda>rows.
                if new_seq_len = int rows then Inr sd
                else
                  (let pos_emb_tok = take_rows 1 old_pos_embed;
                       pos_emb_img = drop_rows 1 old_pos_embed;
                       old_grid = int (floor_sqrt (rows - 1)) in
                   bindE (reshape [1, old_grid, old_grid, - 1] pos_emb_img) (\<lambda>t1.
                   bindE (permute_0312 t1) (\<lambda>t2.
                   bindE (interp t2 grid_size interpolation antialias) (\<lambda>t3.
                   bindE (permute_0231 t3) (\<lambda>t4.
                   bindE (reshape [1, fst grid_size * snd grid_size, - 1] t4) (\<lambda>t5.
                   bindE (index_first t5) (\<lambda>img.
                   bindE (cat_rows pos_emb_tok img) (\<lambda>new_pos_embed.
                     Inr (AList.update pos_key new_pos_embed sd)))))))))))))"

section \<open>Concrete environments and fixtures\<close>

text \<open>
  A forward environment whose towers hand their input back: an image is the batch of
  pooled rows, a token sequence a row of reals. A build environment over the accepting
  constructors, with a model of one module and no parameters, a \<^verbatim>\<open>load_state_dict\<close>
  that accepts, and \<^verbatim>\<open>eval\<close> as the identity.
\<close>

definition identity_forward ::
  "(vision_call, text_call, int \<times> int, int \<times> int, int \<times> int,
    real list list, real list, real list list, unit) forward_externals" where
  "identity_forward =
     \<lparr> visual_forward = (\<lambda>v img. Inr img),
       query_model = (\<lambda>q x cb t. Inr x),
       bottleproj = (\<lambda>p x. Inr x),
       normalize_features = (\<lambda>x. Inr (map F_normalize x)),
       unpack_sparo = (\<lambda>x. Inr (x, ())),
       text_trunk = (\<lambda>t toks. Inr [toks]),
       text_attn_pool = (\<lambda>t. None),
       ln_final = (\<lambda>t x. Inr x),
       text_global_average_pool = (\<lambda>t. False),
       mean_over_tokens = (\<lambda>x. Inr x),
       first_token = (\<lambda>x. Inr x),
       eot_token = (\<lambda>x toks. Inr x),
       text_projection = (\<lambda>t x. Inr x),
       text_sparo = (\<lambda>t x toks. Inr (concat x, ())) \<rparr>"

definition plain_build_externals ::
  "(vision_call, text_call, int \<times> int, int \<times> int, int \<times> int, unit, nat,
    (vision_call, text_call, int \<times> int, int \<times> int, int \<times> int) clip) build_externals" where
  "plain_build_externals =
     \<lparr> b_clip = accepting_externals,
       b_module = (\<lambda>m. Module [K_CLIP] [] []),
       b_store = (\<lambda>m a. \<lparr> p_dtype = Float32, p_payload = () \<rparr>),
       b_cast = (\<lambda>src dst p. p),
       b_load_state_dict = (\<lambda>m st sd. Inr m),
       b_eval = (\<lambda>m. m) \<rparr>"

text \<open>
  A shape-only state dict laid out like a ViT-B/16 export: the shapes are those of the
  export, the entries are left out.
\<close>

definition shaped :: "nat list \<Rightarrow> nat tensor" where
  "shaped s = \<lparr> shape = s, entries = [] \<rparr>"

definition legacy_vit_dict :: "nat state_dict" where
  "legacy_vit_dict =
     [(''input_resolution'', shaped []),
      (''context_length'', shaped []),
      (''vocab_size'', shaped []),
      (''visual.proj'', shaped [768, 512]),
      (''visual.conv1.weight'', shaped [768, 3, 16, 16]),
      (''visual.positional_embedding'', shaped [197, 768]),
      (''visual.transformer.resblocks.0.attn.in_proj_weight'', shaped [2304, 768]),
      (''visual.transformer.resblocks.1.attn.in_proj_weight'', shaped [2304, 768]),
      (''visual.transformer.resblocks.2.attn.in_proj_weight'', shaped [2304, 768]),
      (''visual.transformer.resblocks.3.attn.in_proj_weight'', shaped [2304, 768]),
      (''visual.transformer.resblocks.4.attn.in_proj_weight'', shaped [2304, 768]),
      (''visual.transformer.resblocks.5.attn.in_proj_weight'', shaped [2304, 768]),
      (''visual.transformer.resblocks.6.attn.in_proj_weight'', shaped [2304, 768]),
      (''visual.transformer.resblocks.7.attn.in_proj_weight'', shaped [2304, 768]),
      (''visual.transformer.resblocks.8.attn.in_proj_weight'', shaped [2304, 768]),
      (''visual.transformer.resblocks.9.attn.in_proj_weight'', shaped [2304, 768]),
      (''visual.transformer.resblocks.10.attn.in_proj_weight'', shaped [2304, 768]),
      (''visual.transformer.resblocks.11.attn.in_proj_weight'', shaped [2304, 768]),
      (''text_projection'', shaped [512, 512]),
      (''positional_embedding'', shaped [77, 512]),
      (''token_embedding.weight'', shaped [49408, 512]),
      (''ln_final.weight'', shaped [512]),
      (''transformer.resblocks.0.attn.in_proj_weight'', shaped [1536, 512]),
      (''transformer.resblocks.1.attn.in_proj_weight'', shaped [1536, 512])]"

text \<open>
  Two notions for reasoning about the converter: the store in which the tensors at a set
  of addresses have been converted, and a step that does nothing but convert a fixed
  set of addresses and return a fixed outcome, whatever the store.
\<close>

definition converted_on :: "'p cast \<Rightarrow> dtype \<Rightarrow> nat set \<Rightarrow> 'p store \<Rightarrow> 'p store" where
  "converted_on cast d S st = (\<lambda>a. if a \<in> S then to_dtype cast d (st a) else st a)"

definition static_step :: "'p cast \<Rightarrow> dtype \<Rightarrow> ('p store \<Rightarrow> error option \<times> 'p store) \<Rightarrow> bool" where
  "static_step cast d f = (\<exists>S e. \<forall>st. f st = (e, converted_on cast d S st))"

text \<open>
  A nearest-neighbour interpolation of a \<open>(n, c, h, w)\<close> tensor to the size \<open>(g0, g1)\<close>,
  standing for \<^verbatim>\<open>F.interpolate\<close> wherever a theorem is run on a concrete input.
\<close>

definition nearest_interp :: "'a tensor \<Rightarrow> int \<times> int \<Rightarrow> string \<Rightarrow> bool \<Rightarrow> error + 'a tensor" where
  "nearest_interp t sz mode antialias =
     (case shape t of
        [n, c, h, w] \<Rightarrow>
          if fst sz \<le> 0 \<or> snd sz \<le> 0 \<or> h = 0 \<or> w = 0 then Inl RuntimeError
          else
            (let g0 = nat (fst sz); g1 = nat (snd sz) in
             Inr \<lparr> shape = [n, c, g0, g1],
                   entries = concat (map (\<lambda>a. concat (map (\<lambda>k. concat (map (\<lambda>i. map (\<lambda>j.
                               entries t ! (((a * c + k) * h + i * h div g0) * w + j * w div g1))
                             [0..<g1]) [0..<g0])) [0..<c])) [0..<n]) \<rparr>)
      | _ \<Rightarrow> Inl RuntimeError)"

text \<open>A state dict with a class-token row and a 1 x 1 grid of width 2, and one other key.\<close>

definition small_pos_dict :: "nat state_dict" where
  "small_pos_dict =
     [(''visual.proj'', \<lparr> shape = [2, 2], entries = [1, 2, 3, 4] \<rparr>),
      (''visual.positional_embedding'', \<lparr> shape = [2, 2], entries = [10, 11, 20, 21] \<rparr>)]"

section \<open>Helper facts: the error monad and integer square roots\<close>

lemma bindE_Inr: "bindE m f = Inr y \<Longrightarrow> \<exists>x. m = Inr x \<and> f x = Inr y"
  by (cases m) (simp_all add: bindE_def)

lemma floor_sqrt_bounds:
  "floor_sqrt n * floor_sqrt n \<le> n \<and> n < (floor_sqrt n + 1) * (floor_sqrt n + 1)"
proof (induction n)
  case 0
  show ?case by simp
next
  case (Suc n)
  then show ?case by (auto simp: Let_def)
qed

lemma floor_sqrt_unique:
  assumes "r * r \<le> n" and "n < (r + 1) * (r + 1)"
  shows "floor_sqrt n = r"
proof (rule ccontr)
  assume ne: "floor_sqrt n \<noteq> r"
  let ?s = "floor_sqrt n"
  from floor_sqrt_bounds [of n] have b: "?s * ?s \<le> n" "n < (?s + 1) * (?s + 1)" by simp_all
  from ne consider "?s + 1 \<le> r" | "r + 1 \<le> ?s" by linarith
  then show False
  proof cases
    case 1
    from mult_le_mono [OF this this] have "(?s + 1) * (?s + 1) \<le> r * r" .
    with b assms show False by linarith
  next
    case 2
    from mult_le_mono [OF this this] have "(r + 1) * (r + 1) \<le> ?s * ?s" .
    with b assms show False by linarith
  qed
qed

lemma floor_sqrt_square: "floor_sqrt (g * g) = g"
  by (rule floor_sqrt_unique) simp_all

lemma round_sqrt_square: "round_sqrt (g * g) = g"
  by (simp add: round_sqrt_def floor_sqrt_square)

text \<open>The two integer roots are what the real square root gives.\<close>

lemma floor_sqrt_real: "int (floor_sqrt n) = \<lfloor>sqrt (real n)\<rfloor>"
proof -
  let ?s = "floor_sqrt n"
  from floor_sqrt_bounds [of n] have b: "?s * ?s \<le> n" "n < (?s + 1) * (?s + 1)" by simp_all
  have 1: "real ?s \<le> sqrt (real n)"
  proof -
    have "(real ?s)\<^sup>2 \<le> real n"
      using b(1) unfolding power2_eq_square of_nat_mult [symmetric] by (simp only: of_nat_le_iff)
    then show ?thesis by (simp add: real_le_rsqrt)
  qed
  have 2: "sqrt (real n) < real ?s + 1"
  proof -
    have "real n < real ((?s + 1) * (?s + 1))" using b(2) by (simp only: of_nat_less_iff)
    then have "real n < (real ?s + 1)\<^sup>2" by (simp add: power2_eq_square algebra_simps)
    then show ?thesis by (simp add: real_less_lsqrt)
  qed
  have "\<lfloor>sqrt (real n)\<rfloor> = int ?s"
    by (rule floor_unique) (use 1 2 in simp_all)
  then show ?thesis by simp
qed

lemma round_sqrt_real: "int (round_sqrt n) = round (sqrt (real n))"
proof -
  let ?s = "floor_sqrt n"
  from floor_sqrt_bounds [of n] have b: "?s * ?s \<le> n" "n < (?s + 1) * (?s + 1)" by simp_all
  have fl: "real ?s \<le> sqrt (real n)" "sqrt (real n) < real ?s + 1"
    using floor_sqrt_real [of n] by linarith+
  show ?thesis
  proof (cases "n - ?s * ?s \<le> ?s")
    case True
    then have "n \<le> ?s * ?s + ?s" by linarith
    then have "real n \<le> real (?s * ?s + ?s)" by (simp only: of_nat_le_iff)
    then have "real n \<le> real ?s * real ?s + real ?s" by simp
    then have "real n < (real ?s + 1/2)\<^sup>2" by (simp add: power2_eq_square algebra_simps)
    then have "sqrt (real n) < real ?s + 1/2" by (simp add: real_less_lsqrt)
    then have "round (sqrt (real n)) = int ?s"
      unfolding round_def by (intro floor_unique) (use fl in simp_all)
    then show ?thesis using True by (simp add: round_sqrt_def)
  next
    case False
    then have "?s * ?s + ?s + 1 \<le> n" by linarith
    then have "real (?s * ?s + ?s + 1) \<le> real n" by (simp only: of_nat_le_iff)
    then have "real ?s * real ?s + real ?s + 1 \<le> real n" by simp
    then have "(real ?s + 1/2)\<^sup>2 \<le> real n" by (simp add: power2_eq_square algebra_simps)
    then have "real ?s + 1/2 \<le> sqrt (real n)" by (simp add: real_le_rsqrt)
    then have "round (sqrt (real n)) = int ?s + 1"
      unfolding round_def by (intro floor_unique) (use fl in simp_all)
    then show ?thesis using False by (simp add: round_sqrt_def)
  qed
qed

section \<open>Helper facts: the run of the adapter on the shape-only export\<close>

lemma round_sqrt_196: "round_sqrt 196 = 14"
  using round_sqrt_square [of 14] by simp

lemma infer_vision_legacy:
  "infer_vision legacy_vit_dict =
     Inr \<lparr> vs_layers = Scalar 12, vs_width = 768, vs_patch_size = Some 16, vs_image_size = 224 \<rparr>"
  by (simp add: infer_vision_def legacy_vit_dict_def shaped_def lookup_def shape_at_def shape_last_def
      bindE_def startswith_def endswith_def grid_of_rows_def round_sqrt_196)

lemma infer_text_legacy:
  "infer_text legacy_vit_dict =
     Inr \<lparr> ts_embed_dim = 512, ts_context_length = 77, ts_vocab_size = 49408,
           ts_width = 512, ts_heads = 8, ts_layers = 2 \<rparr>"
  by (simp add: infer_text_def legacy_vit_dict_def shaped_def lookup_def shape_at_def
      bindE_def startswith_def count_blocks_def third_part_def)

lemma pop_legacy: "pop_keys metadata_keys legacy_vit_dict = drop 3 legacy_vit_dict"
  by (simp add: pop_keys_def metadata_keys_def legacy_vit_dict_def AList.delete_eq)

lemma convert_plain: "convert_weights_to_fp16 c (Module [K_CLIP] [] []) st = (None, st)"
  by (simp add: convert_weights_to_fp16_def convert_weights_to_lp_def convert_weights_def seqS_def
      isinstance_def skip_def convert_optional_def getattr_default_def)

lemma clip_init_legacy:
  "\<exists>m. CLIP_init accepting_externals
     ((default_clip_args 512
         (vision_cfg_of \<lparr> vs_layers = Scalar 12, vs_width = 768, vs_patch_size = Some 16,
                          vs_image_size = 224 \<rparr>)
         (text_cfg_of \<lparr> ts_embed_dim = 512, ts_context_length = 77, ts_vocab_size = 49408,
                        ts_width = 512, ts_heads = 8, ts_layers = 2 \<rparr>))
        \<lparr> a_quick_gelu := True, a_cast_dtype := Some Float16 \<rparr>) = Inr m"
  by (simp add: CLIP_init_def default_clip_args_def model_V_of_def bindE_def tower_dim_def
      build_vision_tower_def build_text_tower_def accepting_externals_def
      accepting_vision_ctors_def accepting_text_ctors_def vision_cfg_of_def text_cfg_of_def
      default_vision_cfg_def default_text_cfg_def truthy_name_def py_floordiv_def py_sub_opt_def
      bottleneck_projs_def codebook_parts_def)

lemma build_legacy:
  "\<exists>m. build_model_from_openai_state_dict plain_build_externals legacy_vit_dict True (Some Float16)
     = Inr (m, drop 3 legacy_vit_dict)"
proof -
  from clip_init_legacy obtain m where m: "CLIP_init accepting_externals
     ((default_clip_args 512
         (vision_cfg_of \<lparr> vs_layers = Scalar 12, vs_width = 768, vs_patch_size = Some 16,
                          vs_image_size = 224 \<rparr>)
         (text_cfg_of \<lparr> ts_embed_dim = 512, ts_context_length = 77, ts_vocab_size = 49408,
                        ts_width = 512, ts_heads = 8, ts_layers = 2 \<rparr>))
        \<lparr> a_quick_gelu := True, a_cast_dtype := Some Float16 \<rparr>) = Inr m" by blast
  show ?thesis
    by (simp add: build_model_from_openai_state_dict_def infer_vision_legacy infer_text_legacy
        bindE_def plain_build_externals_def m convert_plain pop_legacy)
qed

section \<open>Helper facts: popping keys\<close>

lemma delete_keys: "map fst (AList.delete k sd) = filter (\<lambda>k'. k' \<noteq> k) (map fst sd)"
  by (induction sd) (auto simp: AList.delete_eq)

lemma pop_keys_map_of: "map_of (pop_keys ks sd) k = (if k \<in> set ks then None else map_of sd k)"
  unfolding pop_keys_def
  by (induction ks arbitrary: sd) (simp_all add: AList.delete_conv)

lemma pop_keys_keys: "map fst (pop_keys ks sd) = filter (\<lambda>k. k \<notin> set ks) (map fst sd)"
  unfolding pop_keys_def
proof (induction ks arbitrary: sd)
  case Nil
  show ?case by simp
next
  case (Cons a ks)
  have "map fst (fold AList.delete ks (AList.delete a sd)) =
          filter (\<lambda>k. k \<notin> set ks) (map fst (AList.delete a sd))"
    by (rule Cons.IH)
  also have "\<dots> = filter (\<lambda>k. k \<notin> set ks) (filter (\<lambda>k'. k' \<noteq> a) (map fst sd))"
    by (simp only: delete_keys)
  also have "\<dots> = filter (\<lambda>k. k \<notin> set (a # ks)) (map fst sd)"
    by (simp add: conj_commute)
  finally show ?case by simp
qed

lemma metadata_keys_three: "length metadata_keys = 3 \<and> distinct metadata_keys"
  by (simp add: metadata_keys_def)

lemma build_Inr:
  assumes "build_model_from_openai_state_dict ext sd qg cd = Inr (r, sd')"
  shows "sd' = pop_keys metadata_keys sd \<and>
         (\<exists>model st loaded.
             convert_weights_to_fp16 (b_cast ext) (b_module ext model) (b_store ext model) = (None, st) \<and>
             b_load_state_dict ext model st sd' = Inr loaded \<and> r = b_eval ext loaded)"
proof -
  from assms obtain vs where 1: "bindE (infer_text sd) (\<lambda>ts.
     bindE (CLIP_init (b_clip ext)
              ((default_clip_args (int (ts_embed_dim ts)) (vision_cfg_of vs) (text_cfg_of ts))
                 \<lparr> a_quick_gelu := qg, a_cast_dtype := cd \<rparr>)) (\<lambda>model.
     let sd' = pop_keys metadata_keys sd in
     case convert_weights_to_fp16 (b_cast ext) (b_module ext model) (b_store ext model) of
       (Some e, st) \<Rightarrow> Inl e
     | (None, st) \<Rightarrow>
         bindE (b_load_state_dict ext model st sd') (\<lambda>loaded.
           Inr (b_eval ext loaded, sd')))) = Inr (r, sd')"
    unfolding build_model_from_openai_state_dict_def by (blast dest: bindE_Inr)
  then obtain ts where 2: "bindE (CLIP_init (b_clip ext)
              ((default_clip_args (int (ts_embed_dim ts)) (vision_cfg_of vs) (text_cfg_of ts))
                 \<lparr> a_quick_gelu := qg, a_cast_dtype := cd \<rparr>)) (\<lambda>model.
     let sd' = pop_keys metadata_keys sd in
     case convert_weights_to_fp16 (b_cast ext) (b_module ext model) (b_store ext model) of
       (Some e, st) \<Rightarrow> Inl e
     | (None, st) \<Rightarrow>
         bindE (b_load_state_dict ext model st sd') (\<lambda>loaded.
           Inr (b_eval ext loaded, sd'))) = Inr (r, sd')"
    by (blast dest: bindE_Inr)
  then obtain model where 3:
    "(case convert_weights_to_fp16 (b_cast ext) (b_module ext model) (b_store ext model) of
       (Some e, st) \<Rightarrow> Inl e
     | (None, st) \<Rightarrow>
         bindE (b_load_state_dict ext model st (pop_keys metadata_keys sd)) (\<lambda>loaded.
           Inr (b_eval ext loaded, pop_keys metadata_keys sd))) = Inr (r, sd')"
    by (metis (no_types, lifting) bindE_Inr)
  obtain eo st where c:
    "convert_weights_to_fp16 (b_cast ext) (b_module ext model) (b_store ext model) = (eo, st)"
    by (cases "convert_weights_to_fp16 (b_cast ext) (b_module ext model) (b_store ext model)")
  with 3 have eo: "eo = None" by (cases eo) simp_all
  with 3 c have "bindE (b_load_state_dict ext model st (pop_keys metadata_keys sd)) (\<lambda>loaded.
           Inr (b_eval ext loaded, pop_keys metadata_keys sd)) = Inr (r, sd')" by simp
  then obtain loaded where l: "b_load_state_dict ext model st (pop_keys metadata_keys sd) = Inr loaded"
      "r = b_eval ext loaded" "sd' = pop_keys metadata_keys sd"
    by (auto dest!: bindE_Inr)
  with c eo show ?thesis by blast
qed


section \<open>Head-count derivation in the vision factory\<close>




section \<open>The mutual exclusion of the two alternative schemes\<close>

text \<open>
  C3. Whatever the other constructor arguments are, and whatever the tower constructors
  and the other external calls would do, \<^verbatim>\<open>CLIP.__init__\<close> with \<^verbatim>\<open>use_sparo\<close> and
  \<^verbatim>\<open>use_codebook\<close> both set raises \<^verbatim>\<open>ValueError\<close> and returns no model. The result
  does not depend on the externals, so no tower constructor has run.
\<close>

theorem CLIP_init_sparo_codebook_exclusive:
  assumes "a_use_sparo a" and "a_use_codebook a"
  shows "CLIP_init ext a = Inl ValueError"
  using assms by (simp add: CLIP_init_def)

theorem CLIP_init_sparo_codebook_exclusive_witness:
  "a_use_sparo ((default_clip_args 512 default_vision_cfg default_text_cfg)
      \<lparr>a_use_sparo := True, a_use_codebook := True\<rparr>) \<and>
   a_use_codebook ((default_clip_args 512 default_vision_cfg default_text_cfg)
      \<lparr>a_use_sparo := True, a_use_codebook := True\<rparr>) \<and>
   CLIP_init accepting_externals ((default_clip_args 512 default_vision_cfg default_text_cfg)
      \<lparr>a_use_sparo := True, a_use_codebook := True\<rparr>) = Inl ValueError"
proof -
  let ?a = "(default_clip_args 512 default_vision_cfg default_text_cfg)
      \<lparr>a_use_sparo := True, a_use_codebook := True\<rparr>"
  have s: "a_use_sparo ?a" and c: "a_use_codebook ?a" by simp_all
  from CLIP_init_sparo_codebook_exclusive [OF s c, of accepting_externals] s c
  show ?thesis by simp
qed

section \<open>The unsupported tag sem:norm\<close>

text \<open>
  C10. With the tag \<^verbatim>\<open>"sem:norm"\<close>, \<^verbatim>\<open>_project_for_sparo\<close> returns no tensor for any
  input, and for every input that the initial \<^verbatim>\<open>view\<close> accepts (the only statement
  before the tag is read) the exception is \<^verbatim>\<open>NotImplementedError\<close>.
\<close>

theorem project_for_sparo_sem_norm:
  "(\<exists>e. project_for_sparo L V ''sem:norm'' x = Inl e) \<and>
   (\<forall>d. view_LV (length x) L V = Inr d \<longrightarrow>
        project_for_sparo L V ''sem:norm'' x = Inl NotImplementedError)"
  by (auto simp: project_for_sparo_def bindE_def parse_sparo_type_def sparo_weights_def
      view_LV_def split: sum.splits option.splits prod.splits)

theorem project_for_sparo_sem_norm_witness:
  "view_LV (length [1, 2, 3, 4 :: real]) (Some 2) (Some 2) = Inr (2, 2) \<and>
   project_for_sparo (Some 2) (Some 2) ''sem:norm'' [1, 2, 3, 4] = Inl NotImplementedError"
proof -
  have v: "view_LV (length [1, 2, 3, 4 :: real]) (Some 2) (Some 2) = Inr (2, 2)"
    by (simp add: view_LV_def)
  from project_for_sparo_sem_norm [of "Some 2" "Some 2" "[1, 2, 3, 4]"] v
  show ?thesis by blast
qed

section \<open>The metadata keys stripped by the adapter\<close>

text \<open>
  C1 (as stated, refuted). The claim says that exactly two metadata keys are stripped.
  On the shape-only export, which holds \<^verbatim>\<open>input_resolution\<close>, \<^verbatim>\<open>context_length\<close> and
  \<^verbatim>\<open>vocab_size\<close> as its first three keys, the adapter returns with all three gone.
\<close>

theorem build_strips_three_keys_on_export:
  "map fst (take 3 legacy_vit_dict) = [''input_resolution'', ''context_length'', ''vocab_size''] \<and>
   map_sum id snd
     (build_model_from_openai_state_dict plain_build_externals legacy_vit_dict True (Some Float16))
     = Inr (drop 3 legacy_vit_dict) \<and>
   length legacy_vit_dict - length (drop 3 legacy_vit_dict) = 3"
proof -
  have a: "map fst (take 3 legacy_vit_dict) = [''input_resolution'', ''context_length'', ''vocab_size'']"
    by (simp add: legacy_vit_dict_def)
  have c: "length legacy_vit_dict - length (drop 3 legacy_vit_dict) = 3"
    by (simp add: legacy_vit_dict_def)
  from build_legacy obtain m where
    "build_model_from_openai_state_dict plain_build_externals legacy_vit_dict True (Some Float16)
       = Inr (m, drop 3 legacy_vit_dict)" by blast
  then have b: "map_sum id snd
     (build_model_from_openai_state_dict plain_build_externals legacy_vit_dict True (Some Float16))
     = Inr (drop 3 legacy_vit_dict)" by simp
  from a b c show ?thesis by blast
qed

text \<open>
  C1 (amended). Whenever \<^verbatim>\<open>build_model_from_openai_state_dict\<close> returns, it has
  stripped exactly the three metadata keys \<^verbatim>\<open>input_resolution\<close>, \<^verbatim>\<open>context_length\<close>
  and \<^verbatim>\<open>vocab_size\<close> from the dict, where present, and nothing else: the other keys
  keep their order and their tensors. The stripped dict is the one handed to the strict
  load, which runs on the parameters the precision conversion has left.
\<close>

theorem build_strips_metadata_keys:
  assumes "build_model_from_openai_state_dict ext sd qg cd = Inr (r, sd')"
  shows "metadata_keys = [''input_resolution'', ''context_length'', ''vocab_size''] \<and>
         length metadata_keys = 3 \<and> distinct metadata_keys \<and>
         map fst sd' = filter (\<lambda>k. k \<notin> set metadata_keys) (map fst sd) \<and>
         (\<forall>k. map_of sd' k = (if k \<in> set metadata_keys then None else map_of sd k)) \<and>
         (\<exists>model st loaded.
             convert_weights_to_fp16 (b_cast ext) (b_module ext model) (b_store ext model) = (None, st) \<and>
             b_load_state_dict ext model st sd' = Inr loaded \<and> r = b_eval ext loaded)"
proof -
  from build_Inr [OF assms] have sd': "sd' = pop_keys metadata_keys sd" and
    ex: "\<exists>model st loaded.
             convert_weights_to_fp16 (b_cast ext) (b_module ext model) (b_store ext model) = (None, st) \<and>
             b_load_state_dict ext model st sd' = Inr loaded \<and> r = b_eval ext loaded" by blast+
  have k: "map fst sd' = filter (\<lambda>k. k \<notin> set metadata_keys) (map fst sd)"
    unfolding sd' by (rule pop_keys_keys)
  have m: "\<forall>k. map_of sd' k = (if k \<in> set metadata_keys then None else map_of sd k)"
    unfolding sd' by (simp only: pop_keys_map_of) simp
  have d: "metadata_keys = [''input_resolution'', ''context_length'', ''vocab_size'']"
    by (rule metadata_keys_def)
  from k m ex d metadata_keys_three show ?thesis by blast
qed

theorem build_strips_metadata_keys_witness:
  "\<exists>r. build_model_from_openai_state_dict plain_build_externals legacy_vit_dict True (Some Float16)
          = Inr (r, drop 3 legacy_vit_dict) \<and>
        map fst (drop 3 legacy_vit_dict) =
          filter (\<lambda>k. k \<notin> set metadata_keys) (map fst legacy_vit_dict)"
proof -
  from build_legacy obtain m where m:
    "build_model_from_openai_state_dict plain_build_externals legacy_vit_dict True (Some Float16)
       = Inr (m, drop 3 legacy_vit_dict)" by blast
  from build_strips_metadata_keys [OF m] m show ?thesis by blast
qed

section \<open>Shape inference on a transformer export\<close>

text \<open>
  C6. For every state dict that has the key \<^verbatim>\<open>visual.proj\<close> (a transformer-backbone
  export), whose \<^verbatim>\<open>visual.conv1.weight\<close> has first dimension 768 and last dimension
  16, which has 12 keys under \<^verbatim>\<open>visual.\<close> ending in \<^verbatim>\<open>.attn.in_proj_weight\<close>, and whose
  \<^verbatim>\<open>visual.positional_embedding\<close> has \<open>14 * 14 + 1\<close> rows, the vision block of the
  adapter infers width 768, 12 layers, patch size 16 and image size 224, and these are
  the fields of the vision config it builds.
\<close>

theorem infer_vision_transformer_export:
  assumes "map_of sd ''visual.proj'' = Some p"
    and "map_of sd ''visual.conv1.weight'' = Some conv1"
    and "shape conv1 = 768 # mid @ [16]"
    and "length (filter (\<lambda>k. startswith k ''visual.'' \<and> endswith k ''.attn.in_proj_weight'')
                   (map fst sd)) = 12"
    and "map_of sd ''visual.positional_embedding'' = Some pos"
    and "shape pos = (14 * 14 + 1) # rest"
  shows "infer_vision sd =
           Inr \<lparr> vs_layers = Scalar 12, vs_width = 768, vs_patch_size = Some 16,
                 vs_image_size = 224 \<rparr> \<and>
         v_width (vision_cfg_of \<lparr> vs_layers = Scalar 12, vs_width = 768, vs_patch_size = Some 16,
                                  vs_image_size = 224 \<rparr>) = 768 \<and>
         v_layers (vision_cfg_of \<lparr> vs_layers = Scalar 12, vs_width = 768, vs_patch_size = Some 16,
                                   vs_image_size = 224 \<rparr>) = Scalar 12 \<and>
         v_patch_size (vision_cfg_of \<lparr> vs_layers = Scalar 12, vs_width = 768,
                                       vs_patch_size = Some 16, vs_image_size = 224 \<rparr>) = Some 16 \<and>
         v_image_size (vision_cfg_of \<lparr> vs_layers = Scalar 12, vs_width = 768,
                                       vs_patch_size = Some 16, vs_image_size = 224 \<rparr>) = Square 224"
proof -
  have "infer_vision sd =
           Inr \<lparr> vs_layers = Scalar 12, vs_width = 768, vs_patch_size = Some 16,
                 vs_image_size = 224 \<rparr>"
    using assms
    by (simp add: infer_vision_def lookup_def shape_at_def shape_last_def bindE_def
        grid_of_rows_def round_sqrt_196)
  then show ?thesis by (simp add: vision_cfg_of_def)
qed

theorem infer_vision_transformer_export_witness:
  "map_of legacy_vit_dict ''visual.proj'' = Some (shaped [768, 512]) \<and>
   map_of legacy_vit_dict ''visual.conv1.weight'' = Some (shaped [768, 3, 16, 16]) \<and>
   shape (shaped [768, 3, 16, 16] :: nat tensor) = 768 # [3, 16] @ [16] \<and>
   length (filter (\<lambda>k. startswith k ''visual.'' \<and> endswith k ''.attn.in_proj_weight'')
             (map fst legacy_vit_dict)) = 12 \<and>
   map_of legacy_vit_dict ''visual.positional_embedding'' = Some (shaped [197, 768]) \<and>
   shape (shaped [197, 768] :: nat tensor) = (14 * 14 + 1) # [768] \<and>
   infer_vision legacy_vit_dict =
     Inr \<lparr> vs_layers = Scalar 12, vs_width = 768, vs_patch_size = Some 16, vs_image_size = 224 \<rparr>"
proof -
  have 1: "map_of legacy_vit_dict ''visual.proj'' = Some (shaped [768, 512])"
    by (simp add: legacy_vit_dict_def)
  have 2: "map_of legacy_vit_dict ''visual.conv1.weight'' = Some (shaped [768, 3, 16, 16])"
    by (simp add: legacy_vit_dict_def)
  have 3: "shape (shaped [768, 3, 16, 16] :: nat tensor) = 768 # [3, 16] @ [16]"
    by (simp add: shaped_def)
  have 4: "length (filter (\<lambda>k. startswith k ''visual.'' \<and> endswith k ''.attn.in_proj_weight'')
             (map fst legacy_vit_dict)) = 12"
    by (simp add: legacy_vit_dict_def startswith_def endswith_def)
  have 5: "map_of legacy_vit_dict ''visual.positional_embedding'' = Some (shaped [197, 768])"
    by (simp add: legacy_vit_dict_def)
  have 6: "shape (shaped [197, 768] :: nat tensor) = (14 * 14 + 1) # [768]"
    by (simp add: shaped_def)
  from infer_vision_transformer_export [OF 1 2 3 4 5 6] 1 2 3 4 5 6
  show ?thesis by blast
qed

section \<open>Structured encoding needs normalisation\<close>

lemma CLIP_init_use_sparo: "CLIP_init ext a = Inr m \<Longrightarrow> c_use_sparo m = a_use_sparo a"
  by (auto simp: CLIP_init_def bindE_def Let_def split: if_splits sum.splits prod.splits)

lemma clip_init_sparo_example:
  "\<exists>m. CLIP_init accepting_externals
          ((default_clip_args 512 default_vision_cfg default_text_cfg)
             \<lparr> a_use_sparo := True, a_L := Some 2, a_V := Some 2 \<rparr>) = Inr m"
  by (simp add: CLIP_init_def default_clip_args_def model_V_of_def endswith_def bindE_def
      tower_dim_def build_vision_tower_def build_text_tower_def accepting_externals_def
      accepting_vision_ctors_def accepting_text_ctors_def default_vision_cfg_def
      default_text_cfg_def truthy_name_def py_floordiv_def py_sub_opt_def bottleneck_projs_def
      codebook_parts_def Let_def)

text \<open>
  C9. For every model that \<^verbatim>\<open>CLIP.__init__\<close> returns for \<^verbatim>\<open>use_sparo=True\<close>,
  \<^verbatim>\<open>encode_image\<close> and \<^verbatim>\<open>encode_text\<close> with \<^verbatim>\<open>normalize=False\<close> return no features,
  whatever \<^verbatim>\<open>return_sparo\<close> and \<^verbatim>\<open>return_attn\<close> are; when the statements before the
  assertion succeed (the forward pass of the vision tower, lines 440 to 451 for text) the
  exception is the \<^verbatim>\<open>AssertionError\<close> of \<^verbatim>\<open>assert normalize\<close>.
\<close>

theorem encode_without_normalize_fails:
  assumes "CLIP_init ext a = Inr m" and "a_use_sparo a"
  shows "(\<exists>e. encode_image fx m img False rs ra = Inl e) \<and>
         (\<forall>f. visual_forward fx (c_visual m) img = Inr f \<longrightarrow>
              encode_image fx m img False rs ra = Inl AssertionError) \<and>
         (\<exists>e. encode_text fx m toks False rs ra = Inl e) \<and>
         (\<forall>x. text_hidden fx m toks = Inr x \<longrightarrow>
              encode_text fx m toks False rs ra = Inl AssertionError)"
proof -
  have s: "c_use_sparo m" using assms CLIP_init_use_sparo by blast
  show ?thesis using s
    by (auto simp: encode_image_def encode_text_def bindE_def split: sum.splits)
qed

theorem encode_without_normalize_fails_witness:
  "\<exists>m. CLIP_init accepting_externals
          ((default_clip_args 512 default_vision_cfg default_text_cfg)
             \<lparr> a_use_sparo := True, a_L := Some 2, a_V := Some 2 \<rparr>) = Inr m \<and>
        a_use_sparo ((default_clip_args 512 default_vision_cfg default_text_cfg)
             \<lparr> a_use_sparo := True, a_L := Some 2, a_V := Some 2 \<rparr>) \<and>
        visual_forward identity_forward (c_visual m) [[1, 2, 3, 4]] = Inr [[1, 2, 3, 4]] \<and>
        text_hidden identity_forward m [1, 2, 3, 4] = Inr [[1, 2, 3, 4]] \<and>
        encode_image identity_forward m [[1, 2, 3, 4]] False True False = Inl AssertionError \<and>
        encode_text identity_forward m [1, 2, 3, 4] False True False = Inl AssertionError"
proof -
  let ?a = "(default_clip_args 512 default_vision_cfg default_text_cfg)
             \<lparr> a_use_sparo := True, a_L := Some 2, a_V := Some 2 \<rparr>"
  from clip_init_sparo_example obtain m where m: "CLIP_init accepting_externals ?a = Inr m"
    by blast
  have u: "a_use_sparo ?a" by simp
  have v: "visual_forward identity_forward (c_visual m) [[1, 2, 3, 4]] = Inr [[1, 2, 3, 4]]"
    by (simp add: identity_forward_def)
  have t: "text_hidden identity_forward m [1, 2, 3, 4] = Inr [[1, 2, 3, 4]]"
    by (simp add: text_hidden_def identity_forward_def bindE_def)
  from encode_without_normalize_fails [OF m u, of identity_forward "[[1, 2, 3, 4]]" True False
      "[1, 2, 3, 4]"] m u v t
  show ?thesis by blast
qed

section \<open>Precision conversion is idempotent\<close>

lemma to_dtype_idem: "to_dtype c d (to_dtype c d t) = to_dtype c d t"
  by (simp add: to_dtype_def)

lemma converted_on_empty: "converted_on c d {} st = st"
  by (simp add: converted_on_def)

lemma converted_on_union:
  "converted_on c d T (converted_on c d S st) = converted_on c d (S \<union> T) st"
  by (rule ext) (simp add: converted_on_def to_dtype_idem)

lemma convert_at_converted_on: "convert_at c d a st = converted_on c d {a} st"
  by (rule ext) (simp add: convert_at_def converted_on_def)

lemma static_skip: "static_step c d skip"
  unfolding static_step_def skip_def
  by (rule exI [of _ "{}"], rule exI [of _ None]) (simp add: converted_on_empty)

lemma static_raise: "static_step c d (\<lambda>st. (Some e, st))"
  unfolding static_step_def
  by (rule exI [of _ "{}"], rule exI [of _ "Some e"]) (simp add: converted_on_empty)

lemma static_convert_at: "static_step c d (\<lambda>st. (None, convert_at c d a st))"
  unfolding static_step_def
  by (rule exI [of _ "{a}"], rule exI [of _ None]) (simp add: convert_at_converted_on)

lemma static_seq:
  assumes "static_step c d f" and "static_step c d g"
  shows "static_step c d (seqS f g)"
proof -
  from assms(1) obtain S e where f: "\<And>st. f st = (e, converted_on c d S st)"
    unfolding static_step_def by blast
  from assms(2) obtain T e' where g: "\<And>st. g st = (e', converted_on c d T st)"
    unfolding static_step_def by blast
  show ?thesis
  proof (cases e)
    case None
    have "\<forall>st. seqS f g st = (e', converted_on c d (S \<union> T) st)"
      by (simp add: seqS_def f g None converted_on_union)
    then show ?thesis unfolding static_step_def by blast
  next
    case (Some x)
    have "\<forall>st. seqS f g st = (Some x, converted_on c d S st)"
      by (simp add: seqS_def f Some)
    then show ?thesis unfolding static_step_def by blast
  qed
qed

lemma static_idem:
  assumes "static_step c d f"
  shows "f (snd (f st)) = f st"
proof -
  from assms obtain S e where f: "\<And>st. f st = (e, converted_on c d S st)"
    unfolding static_step_def by blast
  show ?thesis by (simp add: f converted_on_union)
qed

lemma static_weight_bias: "static_step c d (convert_weight_bias c d l)"
proof (cases "getattr l ''weight''")
  case (Inl e)
  then have "convert_weight_bias c d l = (\<lambda>st. (Some e, st))"
    by (intro ext) (simp add: convert_weight_bias_def)
  then show ?thesis by (simp add: static_raise)
next
  case (Inr w)
  show ?thesis
  proof (cases w)
    case None
    with Inr have "convert_weight_bias c d l = (\<lambda>st. (Some AttributeError, st))"
      by (intro ext) (simp add: convert_weight_bias_def)
    then show ?thesis by (simp add: static_raise)
  next
    case (Some a)
    show ?thesis
    proof (cases "getattr l ''bias''")
      case (Inl e)
      with Inr Some have "convert_weight_bias c d l =
          seqS (\<lambda>st. (None, convert_at c d a st)) (\<lambda>st. (Some e, st))"
        by (intro ext) (simp add: convert_weight_bias_def seqS_def)
      then show ?thesis by (simp add: static_seq static_convert_at static_raise)
    next
      case b: (Inr bo)
      show ?thesis
      proof (cases bo)
        case None
        with Inr Some b have "convert_weight_bias c d l = (\<lambda>st. (None, convert_at c d a st))"
          by (intro ext) (simp add: convert_weight_bias_def)
        then show ?thesis by (simp add: static_convert_at)
      next
        case (Some b')
        with Inr \<open>w = Some a\<close> b have "convert_weight_bias c d l =
            seqS (\<lambda>st. (None, convert_at c d a st)) (\<lambda>st. (None, convert_at c d b' st))"
          by (intro ext) (simp add: convert_weight_bias_def seqS_def)
        then show ?thesis by (simp add: static_seq static_convert_at)
      qed
    qed
  qed
qed

lemma static_attrs: "static_step c d (convert_attrs c d l names)"
proof (induction names)
  case Nil
  have "convert_attrs c d l [] = skip" by (intro ext) (simp add: skip_def)
  then show ?case by (simp add: static_skip)
next
  case (Cons a names)
  show ?case
  proof (cases "getattr l a")
    case (Inl e)
    then have "convert_attrs c d l (a # names) = (\<lambda>st. (Some e, st))"
      by (intro ext) simp
    then show ?thesis by (simp add: static_raise)
  next
    case (Inr po)
    show ?thesis
    proof (cases po)
      case None
      with Inr have "convert_attrs c d l (a # names) = convert_attrs c d l names"
        by (intro ext) simp
      with Cons.IH show ?thesis by simp
    next
      case (Some p)
      with Inr have "convert_attrs c d l (a # names) =
          seqS (\<lambda>st. (None, convert_at c d p st)) (convert_attrs c d l names)"
        by (intro ext) (simp add: seqS_def)
      with Cons.IH show ?thesis by (simp add: static_seq static_convert_at)
    qed
  qed
qed

lemma static_optional: "static_step c d (convert_optional c d l name)"
proof (cases "getattr_default l name")
  case None
  then have "convert_optional c d l name = skip"
    by (intro ext) (simp add: convert_optional_def skip_def)
  then show ?thesis by (simp add: static_skip)
next
  case (Some p)
  then have "convert_optional c d l name = (\<lambda>st. (None, convert_at c d p st))"
    by (intro ext) (simp add: convert_optional_def)
  then show ?thesis by (simp add: static_convert_at)
qed

lemma static_convert_weights: "static_step c d (convert_weights c d l)"
  unfolding convert_weights_def
  by (intro static_seq) (simp_all add: static_weight_bias static_attrs static_optional static_skip)

lemma static_children:
  assumes "\<And>m. m \<in> set ms \<Longrightarrow> static_step c d (module_apply fn m)"
  shows "static_step c d (apply_children fn ms)"
  using assms
proof (induction ms)
  case Nil
  have "apply_children fn [] = skip" by (intro ext) (simp add: skip_def)
  then show ?case by (simp add: static_skip)
next
  case (Cons m ms)
  have "apply_children fn (m # ms) = seqS (module_apply fn m) (apply_children fn ms)"
    by (intro ext) (simp add: seqS_def)
  with Cons show ?case by (simp add: static_seq)
qed

lemma static_module_apply:
  assumes "\<And>l. static_step c d (fn l)"
  shows "static_step c d (module_apply fn m)"
proof (induction m)
  case (Module ks as ch)
  have "module_apply fn (Module ks as ch) = seqS (apply_children fn ch) (fn (Module ks as ch))"
    by (intro ext) (simp add: seqS_def)
  moreover have "static_step c d (apply_children fn ch)"
    by (rule static_children) (rule Module.IH)
  ultimately show ?case using assms by (simp add: static_seq)
qed

text \<open>A run on a linear layer whose weight and bias are distinct float32 tensors.\<close>

lemma convert_weights_to_lp_example:
  "convert_weights_to_lp (\<lambda>src dst p. p + 1) Float16
       (Module [K_Linear] [(''weight'', Some 0), (''bias'', Some 1)] [])
       (\<lambda>a. \<lparr> p_dtype = Float32, p_payload = (0::nat) \<rparr>) =
     (None, (\<lambda>a. \<lparr> p_dtype = Float32, p_payload = 0 \<rparr>)
              (0 := \<lparr> p_dtype = Float16, p_payload = 1 \<rparr>,
               1 := \<lparr> p_dtype = Float16, p_payload = 1 \<rparr>))"
  by (simp add: convert_weights_to_lp_def convert_weights_def seqS_def isinstance_def skip_def
      convert_weight_bias_def getattr_def convert_at_def to_dtype_def)

text \<open>
  C8. For every model, every target dtype and every rounding of payloads, running
  \<^verbatim>\<open>convert_weights_to_lp\<close> a second time on the parameters the first run has left
  returns the same outcome and leaves every parameter as the first run left it, dtype
  and payload; this holds as well when the traversal stops at an exception.
\<close>

theorem convert_weights_to_lp_idempotent:
  "convert_weights_to_lp cast d model (snd (convert_weights_to_lp cast d model st)) =
     convert_weights_to_lp cast d model st"
proof -
  have "static_step cast d (convert_weights_to_lp cast d model)"
    unfolding convert_weights_to_lp_def [abs_def]
    by (rule static_module_apply) (rule static_convert_weights)
  then show ?thesis by (rule static_idem)
qed

section \<open>The resizer rewrites the position-embedding grid\<close>

lemma reshape_grid_Inr:
  assumes "reshape [1, int og, int og, - 1] t = Inr t1"
  shows "og \<noteq> 0"
  using assms
  by (auto simp: reshape_def infer_size_def bindE_def Let_def split: if_splits)

lemma reshape_rows_Inr:
  assumes "reshape [1, m, - 1] t = Inr t5"
  shows "0 < m \<and> (\<exists>D. shape t5 = [1, nat m, D])"
proof -
  from assms obtain s where s: "infer_size [1, m, - 1] (prod_list (shape t)) = Inr s"
    and t5: "t5 = \<lparr> shape = s, entries = entries t \<rparr>"
    unfolding reshape_def by (auto dest!: bindE_Inr)
  have m1: "m \<noteq> - 1" using s by (auto simp: infer_size_def split: if_splits)
  have m2: "\<not> m < - 1" using s by (auto simp: infer_size_def split: if_splits)
  have m0: "m \<noteq> 0" using s m1 by (auto simp: infer_size_def split: if_splits)
  from m1 m2 m0 have pos: "0 < m" by linarith
  from s m1 have "\<exists>D. s = [1, nat m, D]" by (auto simp: infer_size_def split: if_splits)
  with pos t5 show ?thesis by auto
qed

lemma index_first_Inr:
  assumes "index_first t = Inr u" and "shape t = n # r"
  shows "shape u = r"
  using assms by (auto simp: index_first_def split: if_splits)

lemma cat_rows_Inr:
  assumes "cat_rows a b = Inr c" and "shape a = 1 # ra" and "shape b = [m, D]"
  shows "shape c = (1 + m) # ra \<and> entries c = entries a @ entries b"
  using assms by (auto simp: cat_rows_def split: if_splits)

lemma permute_0231_well_shaped:
  assumes "permute_0231 t = Inr u"
  shows "well_shaped u"
proof -
  from assms obtain n c h w where s: "shape t = [n, c, h, w]"
    by (auto simp: permute_0231_def split: list.splits)
  with assms have u: "u = \<lparr> shape = [n, h, w, c],
                entries = concat (map (\<lambda>a. concat (map (\<lambda>i. concat (map (\<lambda>j. map (\<lambda>k.
                            entries t ! (((a * c + k) * h + i) * w + j))
                          [0..<c]) [0..<w])) [0..<h])) [0..<n]) \<rparr>"
    by (simp add: permute_0231_def)
  show ?thesis
    unfolding u well_shaped_def
    by (simp add: length_concat comp_def sum_list_triv)
qed

lemma reshape_rows_entries:
  assumes "reshape [1, m, - 1] t = Inr t5"
  shows "entries t5 = entries t \<and> prod_list (shape t5) = prod_list (shape t)"
proof -
  let ?n = "prod_list (shape t)"
  from assms obtain s where s: "infer_size [1, m, - 1] ?n = Inr s"
    and t5: "t5 = \<lparr> shape = s, entries = entries t \<rparr>"
    unfolding reshape_def by (auto dest!: bindE_Inr)
  have m1: "m \<noteq> - 1" using s by (auto simp: infer_size_def split: if_splits)
  have m2: "\<not> m < - 1" using s by (auto simp: infer_size_def split: if_splits)
  have m0: "m \<noteq> 0" using s m1 by (auto simp: infer_size_def split: if_splits)
  from m1 m2 m0 have pos: "0 < m" by linarith
  from s m1 have md: "int ?n mod m = 0" and sv: "s = [1, nat m, ?n div nat m]"
    by (auto simp: infer_size_def split: if_splits)
  from pos md have "?n mod nat m = 0"
    by (metis nat_int nat_mod_distrib of_nat_0_le_iff less_imp_le nat_0)
  then have "nat m dvd ?n" by (simp add: mod_eq_0_iff_dvd)
  then have "nat m * (?n div nat m) = ?n" by (rule dvd_mult_div_cancel)
  then show ?thesis using t5 sv by simp
qed

lemma index_first_entries:
  assumes "index_first t = Inr u" and "shape t = 1 # r" and "well_shaped t"
  shows "entries u = entries t \<and> well_shaped u"
  using assms by (auto simp: index_first_def well_shaped_def split: if_splits)

lemma cat_rows_rest:
  assumes "cat_rows a b = Inr c" and "shape a = 1 # ra" and "shape b = [m, D]"
  shows "ra = [D]"
  using assms by (auto simp: cat_rows_def split: if_splits)

lemma resize_pos_embed_rewrites:
  assumes old: "map_of sd pos_key = Some old"
    and sh: "shape old = rows # rest"
    and ws: "well_shaped old"
    and ne: "int rows \<noteq> fst (to_2tuple g) * snd (to_2tuple g) + 1"
    and res: "resize_pos_embed interp sd (Some g) ipl aa = Inr sd'"
  shows "\<exists>new t1 t2 t3 t4.
           sd' = AList.update pos_key new sd \<and>
           reshape [1, int (floor_sqrt (rows - 1)), int (floor_sqrt (rows - 1)), - 1]
             (drop_rows 1 old) = Inr t1 \<and>
           permute_0312 t1 = Inr t2 \<and>
           interp t2 (to_2tuple g) ipl aa = Inr t3 \<and>
           permute_0231 t3 = Inr t4 \<and>
           shape new = nat (fst (to_2tuple g) * snd (to_2tuple g) + 1) # rest \<and>
           well_shaped new \<and>
           take (prod_list rest) (entries new) = take (prod_list rest) (entries old) \<and>
           drop (prod_list rest) (entries new) = entries t4"
proof -
  let ?gs = "to_2tuple g"
  let ?m = "fst ?gs * snd ?gs"
  have r0: "shape_at 0 old = Inr rows" using sh by (simp add: shape_at_def)
  from res old r0 ne have
    "bindE (reshape [1, int (floor_sqrt (rows - 1)), int (floor_sqrt (rows - 1)), - 1] (drop_rows 1 old)) (\<lambda>t1.
       bindE (permute_0312 t1) (\<lambda>t2.
       bindE (interp t2 ?gs ipl aa) (\<lambda>t3.
       bindE (permute_0231 t3) (\<lambda>t4.
       bindE (reshape [1, ?m, - 1] t4) (\<lambda>t5.
       bindE (index_first t5) (\<lambda>img.
       bindE (cat_rows (take_rows 1 old) img) (\<lambda>new_pos_embed.
         Inr (AList.update pos_key new_pos_embed sd)))))))) = Inr sd'"
    by (simp add: resize_pos_embed_def Let_def bindE_def)
  then obtain t1 t2 t3 t4 t5 img new where
    t1: "reshape [1, int (floor_sqrt (rows - 1)), int (floor_sqrt (rows - 1)), - 1] (drop_rows 1 old) = Inr t1"
    and t2: "permute_0312 t1 = Inr t2"
    and t3: "interp t2 ?gs ipl aa = Inr t3"
    and t4: "permute_0231 t3 = Inr t4"
    and t5: "reshape [1, ?m, - 1] t4 = Inr t5"
    and img: "index_first t5 = Inr img"
    and cat: "cat_rows (take_rows 1 old) img = Inr new"
    and sd': "sd' = AList.update pos_key new sd"
    by (fastforce dest!: bindE_Inr)
  from reshape_grid_Inr [OF t1] have "floor_sqrt (rows - 1) \<noteq> 0" .
  then have rows: "1 \<le> rows" by (cases rows) auto
  from reshape_rows_Inr [OF t5] obtain D where mpos: "0 < ?m" and s5: "shape t5 = [1, nat ?m, D]"
    by blast
  have w4: "well_shaped t4" by (rule permute_0231_well_shaped [OF t4])
  from reshape_rows_entries [OF t5] have e5: "entries t5 = entries t4"
    and p5: "prod_list (shape t5) = prod_list (shape t4)" by simp_all
  have w5: "well_shaped t5" using w4 e5 p5 by (simp add: well_shaped_def)
  from index_first_entries [OF img s5 w5] have eimg: "entries img = entries t4"
    and wimg: "well_shaped img" by (simp_all add: e5)
  from index_first_Inr [OF img s5] have simg: "shape img = [nat ?m, D]" .
  have stok: "shape (take_rows 1 old) = 1 # rest" using sh rows by (simp add: take_rows_def)
  have etok: "entries (take_rows 1 old) = take (prod_list rest) (entries old)"
    using sh rows by (simp add: take_rows_def)
  from cat_rows_Inr [OF cat stok simg] have
    snew: "shape new = (1 + nat ?m) # rest" and enew: "entries new = entries (take_rows 1 old) @ entries img"
    by simp_all
  from cat_rows_rest [OF cat stok simg] have rest: "rest = [D]" .
  have len: "prod_list rest \<le> length (entries old)"
    using ws sh rows by (simp add: well_shaped_def)
  have ltok: "length (entries (take_rows 1 old)) = prod_list rest"
    unfolding etok using len by simp
  have limg: "length (entries img) = nat ?m * D"
    using wimg simg by (simp add: well_shaped_def)
  have "length (entries new) = D + nat ?m * D"
    unfolding enew using ltok limg rest by simp
  then have wnew: "well_shaped new"
    unfolding well_shaped_def snew rest by simp
  have en: "entries new = take (prod_list rest) (entries old) @ entries t4"
    unfolding enew etok eimg ..
  have sn: "shape new = nat (?m + 1) # rest" using snew mpos by (simp add: nat_add_distrib)
  have lt: "length (take (prod_list rest) (entries old)) = prod_list rest" using len by simp
  have tk: "take (prod_list rest) (entries new) = take (prod_list rest) (entries old)"
    unfolding en using lt by simp
  have dr: "drop (prod_list rest) (entries new) = entries t4"
    unfolding en using lt by simp
  from sd' t1 t2 t3 t4 sn wnew tk dr show ?thesis by blast
qed

lemma reshape_grid_ok:
  assumes "shape t = [og * og, D]" and "0 < og"
  shows "\<exists>t1. reshape [1, int og, int og, - 1] t = Inr t1 \<and> shape t1 = [1, og, og, D]"
proof -
  have p: "prod_list (shape t) = og * og * D" using assms by simp
  have m: "int (og * og * D) mod (int og * int og) = 0"
    by (simp add: mult.assoc [symmetric] flip: of_nat_mult)
  have dv: "og * og * D div nat (int og * int og) = D"
    using assms(2) by (simp add: nat_mult_distrib)
  show ?thesis
    using assms(2) m dv by (simp add: reshape_def infer_size_def bindE_def Let_def p)
qed

lemma reshape_rows_ok:
  assumes "shape t = [1, G0, G1, D]" and "0 < G0" and "0 < G1"
  shows "\<exists>t5. reshape [1, int G0 * int G1, - 1] t = Inr t5 \<and> shape t5 = [1, G0 * G1, D]"
proof -
  have p: "prod_list (shape t) = G0 * G1 * D" using assms by simp
  have m: "int (G0 * G1 * D) mod (int G0 * int G1) = 0"
    by (simp add: mult.assoc [symmetric] flip: of_nat_mult)
  have dv: "G0 * G1 * D div nat (int G0 * int G1) = D"
    using assms(2,3) by (simp add: nat_mult_distrib)
  have n1: "int G0 * int G1 \<noteq> - 1" "\<not> int G0 * int G1 < - 1" "int G0 * int G1 \<noteq> 0"
    using assms(2,3) by (simp_all add: flip: of_nat_mult)
  show ?thesis
    using n1 m dv by (simp add: reshape_def infer_size_def bindE_def Let_def p nat_mult_distrib)
qed

lemma resize_pos_embed_returns:
  assumes old: "map_of sd pos_key = Some old"
    and sh: "shape old = [og * og + 1, D]"
    and og: "0 < og"
    and g: "to_2tuple g = (g0, g1)" "0 < g0" "0 < g1"
    and ne: "int (og * og + 1) \<noteq> g0 * g1 + 1"
    and ip: "\<And>t. shape t = [1, D, og, og] \<Longrightarrow>
               \<exists>t'. interp t (g0, g1) ipl aa = Inr t' \<and> shape t' = [1, D, nat g0, nat g1]"
  shows "\<exists>sd'. resize_pos_embed interp sd (Some g) ipl aa = Inr sd'"
proof -
  have r0: "shape_at 0 old = Inr (og * og + 1)" using sh by (simp add: shape_at_def)
  have fs: "floor_sqrt (og * og + 1 - 1) = og" by (simp add: floor_sqrt_square)
  have sd: "shape (drop_rows 1 old) = [og * og, D]" using sh by (simp add: drop_rows_def)
  from reshape_grid_ok [OF sd og] obtain t1 where
    t1: "reshape [1, int og, int og, - 1] (drop_rows 1 old) = Inr t1" and s1: "shape t1 = [1, og, og, D]"
    by blast
  obtain t2 where t2: "permute_0312 t1 = Inr t2" and s2: "shape t2 = [1, D, og, og]"
    using s1 by (simp add: permute_0312_def)
  from ip [OF s2] obtain t3 where t3: "interp t2 (g0, g1) ipl aa = Inr t3"
    and s3: "shape t3 = [1, D, nat g0, nat g1]" by blast
  obtain t4 where t4: "permute_0231 t3 = Inr t4" and s4: "shape t4 = [1, nat g0, nat g1, D]"
    using s3 by (simp add: permute_0231_def)
  have gp: "0 < nat g0" "0 < nat g1" using g by simp_all
  from reshape_rows_ok [OF s4 gp] g obtain t5 where
    t5: "reshape [1, g0 * g1, - 1] t4 = Inr t5" and s5: "shape t5 = [1, nat g0 * nat g1, D]"
    by auto
  obtain img where img: "index_first t5 = Inr img" and si: "shape img = [nat g0 * nat g1, D]"
    using s5 by (simp add: index_first_def)
  have st: "shape (take_rows 1 old) = [1, D]" using sh by (simp add: take_rows_def)
  obtain new where new: "cat_rows (take_rows 1 old) img = Inr new"
    using st si by (simp add: cat_rows_def)
  show ?thesis
    using old r0 ne g(1) fs t1 t2 t3 t4 t5 img new
    by (simp add: resize_pos_embed_def Let_def bindE_def)
qed

lemma resize_pos_embed_no_key:
  "map_of sd pos_key = None \<Longrightarrow> resize_pos_embed interp sd grid ipl aa = Inr sd"
  by (simp add: resize_pos_embed_def)

lemma resize_pos_embed_same_grid:
  assumes "map_of sd pos_key = Some old" and "shape old = rows # rest"
    and "int rows = fst (to_2tuple g) * snd (to_2tuple g) + 1"
  shows "resize_pos_embed interp sd (Some g) ipl aa = Inr sd"
  using assms by (simp add: resize_pos_embed_def Let_def bindE_def shape_at_def)

text \<open>
  C7 (as stated, refuted). The claim says that for every state dict the key is rewritten
  unless one of the two no-op conditions holds. A table of 4 rows of width 2 is a
  class-token row and 3 further rows, which are no square grid; with a target grid of
  2 x 2 neither no-op condition holds, and \<^verbatim>\<open>resize_pos_embed\<close> raises at the
  concatenation of line 715 (the 3 rows were read as a 1 x 1 grid of width 6) and rewrites
  nothing.
\<close>

theorem resize_pos_embed_raises_on_ragged_table:
  "map_of [(pos_key, \<lparr> shape = [4, 2], entries = [0, 1, 2, 3, 4, 5, 6, 7 :: nat] \<rparr>)] pos_key
     = Some \<lparr> shape = [4, 2], entries = [0, 1, 2, 3, 4, 5, 6, 7] \<rparr> \<and>
   well_shaped \<lparr> shape = [4, 2], entries = [0, 1, 2, 3, 4, 5, 6, 7 :: nat] \<rparr> \<and>
   int 4 \<noteq> fst (to_2tuple (Square 2)) * snd (to_2tuple (Square 2)) + 1 \<and>
   resize_pos_embed nearest_interp
       [(pos_key, \<lparr> shape = [4, 2], entries = [0, 1, 2, 3, 4, 5, 6, 7 :: nat] \<rparr>)]
       (Some (Square 2)) ''bicubic'' True
     = Inl RuntimeError"
  by code_simp

text \<open>
  C7 (amended). Let \<open>(g0, g1)\<close> be the grid of the target model's vision tower.
  \<^item> If the dict has no \<^verbatim>\<open>visual.positional_embedding\<close>, or its table has
    \<open>g0 * g1 + 1\<close> rows, \<^verbatim>\<open>resize_pos_embed\<close> leaves the dict as it is.
  \<^item> Otherwise, whenever the function returns, it has rewritten that key, and only that
    key, to a well-shaped table of exactly \<open>g0 * g1 + 1\<close> rows with the row shape of the
    old table; its first row is the first row of the old table, and its other rows are
    the entries of the interpolated grid: the old rows after the first, viewed as a
    square grid, permuted, interpolated and permuted back.
  \<^item> The function does return when the old table is a class-token row followed by a
    square grid (\<open>og * og + 1\<close> rows of width \<open>D\<close>, \<open>og > 0\<close>), the target grid is
    positive, and \<^verbatim>\<open>F.interpolate\<close> returns a tensor of the requested spatial size.
\<close>

theorem resize_pos_embed_rewrites_grid:
  assumes g: "to_2tuple g = (g0, g1)"
  shows "(map_of sd pos_key = None \<longrightarrow> resize_pos_embed interp sd (Some g) ipl aa = Inr sd) \<and>
         (\<forall>old rows rest.
            map_of sd pos_key = Some old \<and> shape old = rows # rest \<and> int rows = g0 * g1 + 1 \<longrightarrow>
            resize_pos_embed interp sd (Some g) ipl aa = Inr sd) \<and>
         (\<forall>old rows rest sd'.
            map_of sd pos_key = Some old \<and> shape old = rows # rest \<and> well_shaped old \<and>
            int rows \<noteq> g0 * g1 + 1 \<and> resize_pos_embed interp sd (Some g) ipl aa = Inr sd' \<longrightarrow>
            (\<exists>new t1 t2 t3 t4.
                   sd' = AList.update pos_key new sd \<and>
                   map_of sd' = (map_of sd)(pos_key \<mapsto> new) \<and>
                   shape new = nat (g0 * g1 + 1) # rest \<and>
                   well_shaped new \<and>
                   take (prod_list rest) (entries new) = take (prod_list rest) (entries old) \<and>
                   reshape [1, int (floor_sqrt (rows - 1)), int (floor_sqrt (rows - 1)), - 1]
                     (drop_rows 1 old) = Inr t1 \<and>
                   permute_0312 t1 = Inr t2 \<and>
                   interp t2 (g0, g1) ipl aa = Inr t3 \<and>
                   permute_0231 t3 = Inr t4 \<and>
                   drop (prod_list rest) (entries new) = entries t4)) \<and>
         (\<forall>old og D.
            map_of sd pos_key = Some old \<and> shape old = [og * og + 1, D] \<and> 0 < og \<and>
            0 < g0 \<and> 0 < g1 \<and> int (og * og + 1) \<noteq> g0 * g1 + 1 \<and>
            (\<forall>t. shape t = [1, D, og, og] \<longrightarrow>
                 (\<exists>t'. interp t (g0, g1) ipl aa = Inr t' \<and> shape t' = [1, D, nat g0, nat g1])) \<longrightarrow>
            (\<exists>sd'. resize_pos_embed interp sd (Some g) ipl aa = Inr sd'))"
proof (intro conjI allI impI)
  assume "map_of sd pos_key = None"
  then show "resize_pos_embed interp sd (Some g) ipl aa = Inr sd"
    by (rule resize_pos_embed_no_key)
next
  fix old rows rest
  assume "map_of sd pos_key = Some old \<and> shape old = rows # rest \<and> int rows = g0 * g1 + 1"
  then show "resize_pos_embed interp sd (Some g) ipl aa = Inr sd"
    using g by (intro resize_pos_embed_same_grid [of sd old rows rest]) simp_all
next
  fix old rows rest sd'
  assume a: "map_of sd pos_key = Some old \<and> shape old = rows # rest \<and> well_shaped old \<and>
            int rows \<noteq> g0 * g1 + 1 \<and> resize_pos_embed interp sd (Some g) ipl aa = Inr sd'"
  then have ne: "int rows \<noteq> fst (to_2tuple g) * snd (to_2tuple g) + 1" using g by simp
  from a resize_pos_embed_rewrites [of sd old rows rest g interp ipl aa sd', OF _ _ _ ne]
  obtain new t1 t2 t3 t4 where n: "sd' = AList.update pos_key new sd"
      "shape new = nat (fst (to_2tuple g) * snd (to_2tuple g) + 1) # rest"
      "well_shaped new"
      "take (prod_list rest) (entries new) = take (prod_list rest) (entries old)"
      "reshape [1, int (floor_sqrt (rows - 1)), int (floor_sqrt (rows - 1)), - 1]
         (drop_rows 1 old) = Inr t1"
      "permute_0312 t1 = Inr t2"
      "interp t2 (to_2tuple g) ipl aa = Inr t3"
      "permute_0231 t3 = Inr t4"
      "drop (prod_list rest) (entries new) = entries t4"
    by blast
  have m: "map_of sd' = (map_of sd)(pos_key \<mapsto> new)"
    unfolding n(1) by (simp add: AList.update_conv')
  have s: "shape new = nat (g0 * g1 + 1) # rest" using n(2) g by simp
  have i: "interp t2 (g0, g1) ipl aa = Inr t3" using n(7) g by simp
  from n(1) m s n(3) n(4) n(5) n(6) i n(8) n(9)
  show "\<exists>new t1 t2 t3 t4.
                   sd' = AList.update pos_key new sd \<and>
                   map_of sd' = (map_of sd)(pos_key \<mapsto> new) \<and>
                   shape new = nat (g0 * g1 + 1) # rest \<and>
                   well_shaped new \<and>
                   take (prod_list rest) (entries new) = take (prod_list rest) (entries old) \<and>
                   reshape [1, int (floor_sqrt (rows - 1)), int (floor_sqrt (rows - 1)), - 1]
                     (drop_rows 1 old) = Inr t1 \<and>
                   permute_0312 t1 = Inr t2 \<and>
                   interp t2 (g0, g1) ipl aa = Inr t3 \<and>
                   permute_0231 t3 = Inr t4 \<and>
                   drop (prod_list rest) (entries new) = entries t4"
    by blast
next
  fix old og D
  assume a: "map_of sd pos_key = Some old \<and> shape old = [og * og + 1, D] \<and> 0 < og \<and>
            0 < g0 \<and> 0 < g1 \<and> int (og * og + 1) \<noteq> g0 * g1 + 1 \<and>
            (\<forall>t. shape t = [1, D, og, og] \<longrightarrow>
                 (\<exists>t'. interp t (g0, g1) ipl aa = Inr t' \<and> shape t' = [1, D, nat g0, nat g1]))"
  then have ip: "\<And>t. shape t = [1, D, og, og] \<Longrightarrow>
               \<exists>t'. interp t (g0, g1) ipl aa = Inr t' \<and> shape t' = [1, D, nat g0, nat g1]"
    by blast
  from a show "\<exists>sd'. resize_pos_embed interp sd (Some g) ipl aa = Inr sd'"
    by (intro resize_pos_embed_returns [of sd old og D g g0 g1 interp ipl aa] g ip) simp_all
qed

lemma nearest_interp_shape:
  assumes "shape t = [1, 2, 1, 1]"
  shows "\<exists>t'. nearest_interp t (2, 2) ipl aa = Inr t' \<and> shape t' = [1, 2, nat 2, nat 2]"
  using assms by (simp add: nearest_interp_def Let_def)

theorem resize_pos_embed_rewrites_grid_witness:
  "to_2tuple (Square 2) = (2, 2) \<and>
   map_of [(''visual.proj'', shaped [2, 2])] pos_key = None \<and>
   resize_pos_embed nearest_interp [(''visual.proj'', shaped [2, 2])] (Some (Square 2)) ''bicubic'' True
     = Inr [(''visual.proj'', shaped [2, 2])] \<and>
   map_of small_pos_dict pos_key = Some \<lparr> shape = [2, 2], entries = [10, 11, 20, 21] \<rparr> \<and>
   well_shaped \<lparr> shape = [2, 2], entries = [10, 11, 20, 21 :: nat] \<rparr> \<and>
   int 2 \<noteq> 2 * 2 + 1 \<and>
   (\<exists>sd' new. resize_pos_embed nearest_interp small_pos_dict (Some (Square 2)) ''bicubic'' True = Inr sd' \<and>
       sd' = AList.update pos_key new small_pos_dict \<and>
       shape new = nat (2 * 2 + 1) # [2] \<and>
       well_shaped new \<and>
       take (prod_list [2]) (entries new) = take (prod_list [2]) [10, 11, 20, 21])"
proof -
  let ?old = "\<lparr> shape = [2, 2], entries = [10, 11, 20, 21 :: nat] \<rparr>"
  have g: "to_2tuple (Square 2) = (2, 2)" by (simp add: to_2tuple_def)
  have k0: "map_of [(''visual.proj'', shaped [2, 2])] pos_key = None"
    by (simp add: pos_key_def)
  have k: "map_of small_pos_dict pos_key = Some ?old"
    by (simp add: small_pos_dict_def pos_key_def)
  have w: "well_shaped ?old" by (simp add: well_shaped_def)
  have ne: "int 2 \<noteq> 2 * 2 + 1" by simp
  have sh: "shape ?old = [1 * 1 + 1, 2]" by simp
  note T = resize_pos_embed_rewrites_grid [OF g, of _ nearest_interp "''bicubic''" True]
  from T [of "[(''visual.proj'', shaped [2, 2])]"] k0
  have a: "resize_pos_embed nearest_interp [(''visual.proj'', shaped [2, 2])] (Some (Square 2))
             ''bicubic'' True = Inr [(''visual.proj'', shaped [2, 2])]"
    by blast
  note d = T [of small_pos_dict, THEN conjunct2, THEN conjunct2, THEN conjunct2]
  note c = T [of small_pos_dict, THEN conjunct2, THEN conjunct2, THEN conjunct1]
  have ip: "\<forall>t. shape t = [1, 2, 1, 1] \<longrightarrow>
          (\<exists>t'. nearest_interp t (2, 2) ''bicubic'' True = Inr t' \<and> shape t' = [1, 2, nat 2, nat 2])"
    using nearest_interp_shape by blast
  have h: "map_of small_pos_dict pos_key = Some ?old \<and> shape ?old = [1 * 1 + 1, 2] \<and> 0 < (1::nat) \<and>
      0 < (2::int) \<and> 0 < (2::int) \<and> int (1 * 1 + 1) \<noteq> 2 * 2 + 1 \<and>
      (\<forall>t. shape t = [1, 2, 1, 1] \<longrightarrow>
          (\<exists>t'. nearest_interp t (2, 2) ''bicubic'' True = Inr t' \<and> shape t' = [1, 2, nat 2, nat 2]))"
    using k ip by simp
  from d [rule_format, of ?old 1 2, OF h]
  obtain sd' where r: "resize_pos_embed nearest_interp small_pos_dict (Some (Square 2)) ''bicubic'' True = Inr sd'"
    by blast
  have h2: "map_of small_pos_dict pos_key = Some ?old \<and> shape ?old = 2 # [2] \<and> well_shaped ?old \<and>
      int 2 \<noteq> 2 * 2 + 1 \<and>
      resize_pos_embed nearest_interp small_pos_dict (Some (Square 2)) ''bicubic'' True = Inr sd'"
    using k w r by simp
  from c [rule_format, of ?old 2 "[2]" sd', OF h2]
  obtain new where "sd' = AList.update pos_key new small_pos_dict"
      "shape new = nat (2 * 2 + 1) # [2]"
      "well_shaped new"
      "take (prod_list [2]) (entries new) = take (prod_list [2]) [10, 11, 20, 21]"
    by auto
  with r have e: "\<exists>sd' new. resize_pos_embed nearest_interp small_pos_dict (Some (Square 2)) ''bicubic'' True = Inr sd' \<and>
       sd' = AList.update pos_key new small_pos_dict \<and>
       shape new = nat (2 * 2 + 1) # [2] \<and>
       well_shaped new \<and>
       take (prod_list [2]) (entries new) = take (prod_list [2]) [10, 11, 20, 21]"
    by blast
  from g k0 a k w ne e show ?thesis by blast
qed

section \<open>Helper facts: softmax and the L2 norm\<close>

lemma sum_list_exp_pos: "xs \<noteq> [] \<Longrightarrow> 0 < sum_list (map exp (xs :: real list))"
proof (induction xs)
  case Nil
  then show ?case by simp
next
  case (Cons a xs)
  have nn: "0 \<le> sum_list (map exp xs)" by (rule sum_list_nonneg) auto
  have p: "0 < exp a" by simp
  from add_pos_nonneg [OF p nn] show ?case by simp
qed

lemma sum_list_divide: "sum_list (map (\<lambda>x. f x / (c::real)) xs) = sum_list (map f xs) / c"
  by (induction xs) (simp_all add: add_divide_distrib)

lemma sum_list_softmax: "xs \<noteq> [] \<Longrightarrow> sum_list (softmax xs) = 1"
  using sum_list_exp_pos [of xs] by (simp add: softmax_def sum_list_divide)

lemma length_softmax: "length (softmax xs) = length xs"
  by (simp add: softmax_def)

lemma sum_squares_shift:
  "sum_list (map (\<lambda>x. (x - m)\<^sup>2) xs) =
     sum_list (map (\<lambda>x. x\<^sup>2) xs) - 2 * m * sum_list xs + real (length xs) * m\<^sup>2"
  for m :: real
  by (induction xs) (simp_all add: power2_eq_square algebra_simps)

lemma sum_squares_lower:
  fixes xs :: "real list"
  assumes "xs \<noteq> []"
  shows "(sum_list xs)\<^sup>2 / real (length xs) \<le> sum_list (map (\<lambda>x. x\<^sup>2) xs)"
proof -
  let ?n = "real (length xs)"
  let ?m = "sum_list xs / ?n"
  have n: "0 < ?n" using assms by simp
  have "0 \<le> sum_list (map (\<lambda>x. (x - ?m)\<^sup>2) xs)" by (rule sum_list_nonneg) auto
  also have "\<dots> = sum_list (map (\<lambda>x. x\<^sup>2) xs) - 2 * ?m * sum_list xs + ?n * ?m\<^sup>2"
    by (rule sum_squares_shift)
  also have "\<dots> = sum_list (map (\<lambda>x. x\<^sup>2) xs) - (sum_list xs)\<^sup>2 / ?n"
    using n by (simp add: power2_eq_square field_simps)
  finally show ?thesis by simp
qed

lemma l2norm_softmax_lower:
  assumes "xs \<noteq> []"
  shows "1 / sqrt (real (length xs)) \<le> l2norm (softmax xs)"
proof -
  have ne: "softmax xs \<noteq> []" using assms by (simp add: softmax_def)
  from sum_squares_lower [OF ne] have "1 / real (length xs) \<le> sum_list (map (\<lambda>x. x\<^sup>2) (softmax xs))"
    using assms by (simp add: sum_list_softmax length_softmax)
  then have "sqrt (1 / real (length xs)) \<le> l2norm (softmax xs)"
    unfolding l2norm_def by (rule real_sqrt_le_mono)
  then show ?thesis by (simp add: real_sqrt_divide)
qed

lemma l2norm_scale:
  assumes "0 < c"
  shows "l2norm (map (\<lambda>x. x / c) xs) = l2norm xs / c"
proof -
  have "sum_list (map (\<lambda>x. (x / c)\<^sup>2) xs) = sum_list (map (\<lambda>x. x\<^sup>2) xs) / c\<^sup>2"
    by (simp add: power_divide sum_list_divide)
  then show ?thesis
    using assms by (simp add: l2norm_def comp_def real_sqrt_divide)
qed

lemma l2norm_F_normalize:
  assumes "1 / 10 ^ 12 \<le> l2norm xs"
  shows "l2norm (F_normalize xs) = 1"
proof -
  have "0 < (1::real) / 10 ^ 12" by simp
  with assms have pos: "0 < l2norm xs" by linarith
  have m: "max (l2norm xs) (1 / 10 ^ 12) = l2norm xs" using assms by (simp add: max_def)
  show ?thesis unfolding F_normalize_def m using pos by (simp add: l2norm_scale)
qed

lemma l2norm_normalized_softmax:
  assumes "xs \<noteq> []" and "length xs \<le> 10 ^ 24"
  shows "l2norm (F_normalize (softmax xs)) = 1"
proof (rule l2norm_F_normalize)
  have n: "0 < real (length xs)" using assms(1) by simp
  have "real (length xs) \<le> 10 ^ 24" using assms(2) by (metis of_nat_le_iff of_nat_numeral of_nat_power)
  then have "sqrt (real (length xs)) \<le> sqrt (10 ^ 24)" by (rule real_sqrt_le_mono)
  also have "sqrt (10 ^ 24) = (10 ^ 12 :: real)"
  proof -
    have "(10 ^ 24 :: real) = (10 ^ 12)\<^sup>2" by simp
    then show ?thesis by (simp only: real_sqrt_abs) simp
  qed
  finally have "sqrt (real (length xs)) \<le> 10 ^ 12" .
  moreover have "0 < sqrt (real (length xs))" using n by simp
  ultimately have "1 / 10 ^ 12 \<le> 1 / sqrt (real (length xs))"
    by (simp add: frac_le)
  also have "\<dots> \<le> l2norm (softmax xs)" by (rule l2norm_softmax_lower [OF assms(1)])
  finally show "1 / 10 ^ 12 \<le> l2norm (softmax xs)" .
qed

section \<open>Helper facts: views, slots and columns\<close>

lemma view_LV_Inr:
  assumes "view_LV n L V = Inr (L', V')"
  shows "L' * V' = n"
proof -
  from assms obtain l v where lv: "L = Some l" "V = Some v"
    by (auto simp: view_LV_def split: option.splits)
  show ?thesis
  proof (cases "l = - 1")
    case True
    with assms lv have v: "0 < v" "int n mod v = 0" "L' = n div nat v" "V' = nat v"
      by (auto simp: view_LV_def split: if_splits)
    from v(1,2) have "n mod nat v = 0"
      by (metis nat_int nat_mod_distrib of_nat_0_le_iff less_imp_le nat_0)
    then have "nat v dvd n" by (simp add: mod_eq_0_iff_dvd)
    then have "n div nat v * nat v = n" by (rule dvd_div_mult_self)
    then show ?thesis using v by simp
  next
    case False
    note l1 = this
    show ?thesis
    proof (cases "v = - 1")
      case True
      with assms lv l1 have l: "0 < l" "int n mod l = 0" "L' = nat l" "V' = n div nat l"
        by (auto simp: view_LV_def split: if_splits)
      from l(1,2) have "n mod nat l = 0"
        by (metis nat_int nat_mod_distrib of_nat_0_le_iff less_imp_le nat_0)
      then have "nat l dvd n" by (simp add: mod_eq_0_iff_dvd)
      then have "nat l * (n div nat l) = n" by (rule dvd_mult_div_cancel)
      then show ?thesis using l by simp
    next
      case False
      with assms lv l1 have e: "0 \<le> l" "0 \<le> v" "l * v = int n" "L' = nat l" "V' = nat v"
        by (auto simp: view_LV_def split: if_splits)
      then have "int (nat l * nat v) = int n" by simp
      then show ?thesis using e by (simp only: of_nat_eq_iff)
    qed
  qed
qed

lemma slot_length:
  assumes "i < L'" and "length v = L' * V'"
  shows "length (take V' (drop (i * V') v)) = V'"
proof -
  have "Suc i \<le> L'" using assms(1) by simp
  then have "Suc i * V' \<le> L' * V'" by (rule mult_le_mono1)
  then show ?thesis using assms(2) by simp
qed

lemma length_slots: "length (slots L' V' v) = L'"
  by (simp add: slots_def)

lemma length_first_channel:
  assumes "0 < V'" and "length v = L' * V'"
  shows "length (first_channel (slots L' V' v)) = L'"
proof -
  have "map (\<lambda>i. length (take 1 (take V' (drop (i * V') v)))) [0..<L'] = map (\<lambda>i. 1) [0..<L']"
  proof (rule map_cong [OF refl])
    fix i assume "i \<in> set [0..<L']"
    then have "i < L'" by simp
    from slot_length [OF this assms(2)] assms(1)
    show "length (take 1 (take V' (drop (i * V') v))) = 1" by simp
  qed
  then have "sum_list (map (\<lambda>i. length (take 1 (take V' (drop (i * V') v)))) [0..<L']) =
      sum_list (map (\<lambda>i. 1) [0..<L'])" by (simp only:)
  also have "\<dots> = L'" by (simp add: sum_list_triv)
  finally have s: "sum_list (map (\<lambda>i. length (take 1 (take V' (drop (i * V') v)))) [0..<L']) = L'" .
  have "length (first_channel (slots L' V' v)) =
      sum_list (map (\<lambda>i. length (take 1 (take V' (drop (i * V') v)))) [0..<L'])"
    by (simp only: first_channel_def slots_def length_concat map_map comp_def)
  with s show ?thesis by simp
qed

lemma singletons_of_column:
  assumes "length col = L'" and "0 < V'"
  shows "as_column L' V' col = map (\<lambda>x. [x]) col"
proof -
  have m: "min 1 V' = 1" using assms(2) by simp
  have "map (\<lambda>i. take 1 (drop (i * 1) col)) [0..<L'] = map (\<lambda>x. [x]) col"
  proof (rule nth_equalityI)
    show "length (map (\<lambda>i. take 1 (drop (i * 1) col)) [0..<L']) = length (map (\<lambda>x. [x]) col)"
      using assms(1) by simp
  next
    fix i assume "i < length (map (\<lambda>i. take 1 (drop (i * 1) col)) [0..<L'])"
    then have i: "i < length col" using assms(1) by simp
    then have "take 1 (drop i col) = [col ! i]"
      by (simp add: take_Suc_conv_app_nth)
    with i assms(1) show "map (\<lambda>i. take 1 (drop (i * 1) col)) [0..<L'] ! i = map (\<lambda>x. [x]) col ! i"
      by simp
  qed
  then show ?thesis unfolding as_column_def slots_def m .
qed

lemma concat_singletons: "concat (map (\<lambda>x. [x]) xs) = xs"
  by (induction xs) simp_all

section \<open>The softmax weights have unit norm\<close>

text \<open>
  C5. Let the view of a flat vector have \<open>L'\<close> slots of \<open>V'\<close> channels, with at least one
  slot and one channel. With the weighting tag \<^verbatim>\<open>softmax\<close>, the weights are the first
  channel, softmaxed across the slots and then L2-normalised across the slots, one
  scalar per slot; their L2 norm along the slot axis is 1, and the value vectors handed
  on have lost that channel. The bound on \<open>L'\<close> keeps the norm of the softmax above the
  \<open>eps = 1e-12\<close> of \<^verbatim>\<open>F.normalize\<close>; tensor sizes are 64-bit integers, so every tensor
  meets it. Entries are reals.
\<close>

theorem softmax_weights_unit_norm:
  assumes v: "view_LV (length v) L model_V = Inr (L', V')"
    and L: "0 < L'" "L' \<le> 10 ^ 24"
    and V: "0 < V'"
  shows "\<exists>w. sparo_weights l rep_type ''softmax'' L' V' (slots L' V' v)
                = Inr (Some w, map (drop 1) (slots L' V' v)) \<and>
              w = map (\<lambda>p. [p]) (F_normalize (softmax (first_channel (slots L' V' v)))) \<and>
              length w = L' \<and> (\<forall>r \<in> set w. length r = 1) \<and> l2norm (concat w) = 1"
proof -
  let ?x = "slots L' V' v"
  let ?col = "F_normalize (softmax (first_channel ?x))"
  let ?w = "as_column L' V' ?col"
  from view_LV_Inr [OF v] have len: "length v = L' * V'" by simp
  have lc: "length (first_channel ?x) = L'" by (rule length_first_channel [OF V len])
  then have ne: "first_channel ?x \<noteq> []" using L(1) by auto
  have lcol: "length ?col = L'" using lc by (simp add: F_normalize_def softmax_def)
  have w: "?w = map (\<lambda>x. [x]) ?col" by (rule singletons_of_column [OF lcol V])
  have 1: "sparo_weights l rep_type ''softmax'' L' V' ?x = Inr (Some ?w, map (drop 1) ?x)"
    by (simp add: sparo_weights_def)
  have 2: "length ?w = L'" using lcol by (simp add: w)
  have 3: "\<forall>r \<in> set ?w. length r = 1" by (auto simp: w)
  have "l2norm (concat ?w) = l2norm ?col" by (simp only: w concat_singletons)
  also have "\<dots> = 1" using ne L(2) lc by (intro l2norm_normalized_softmax) simp_all
  finally have 4: "l2norm (concat ?w) = 1" .
  from 1 w 2 3 4 show ?thesis by blast
qed

theorem softmax_weights_unit_norm_witness:
  "view_LV (length [1, 2, 3, 4 :: real]) (Some 2) (Some 2) = Inr (2, 2) \<and>
   0 < (2::nat) \<and> (2::nat) \<le> 10 ^ 24 \<and>
   (\<exists>w. sparo_weights 2 ''cont'' ''softmax'' 2 2 (slots 2 2 [1, 2, 3, 4])
            = Inr (Some w, map (drop 1) (slots 2 2 [1, 2, 3, 4])) \<and>
        length w = 2 \<and> l2norm (concat w) = 1)"
proof -
  have v: "view_LV (length [1, 2, 3, 4 :: real]) (Some 2) (Some 2) = Inr (2, 2)"
    by (simp add: view_LV_def)
  have a: "0 < (2::nat)" and b: "(2::nat) \<le> 10 ^ 24" by simp_all
  from softmax_weights_unit_norm [OF v a b a, of 2 "''cont''"] v a b
  show ?thesis by blast
qed

section \<open>The round trip under constant weighting\<close>

lemma view_LV_exact: "view_LV (L * V) (Some (int L)) (Some (int V)) = Inr (L, V)"
  by (simp add: view_LV_def)

lemma parse_cont_const: "parse_sparo_type ''cont:const'' = Inr (''cont'', ''const'')"
  by (simp add: parse_sparo_type_def)

lemma parse_sem_const: "parse_sparo_type ''sem:const'' = Inr (''sem'', ''const'')"
  by (simp add: parse_sparo_type_def)

lemma const_weights:
  assumes "0 < L"
  shows "sparo_weights (int L) rep ''const'' L V xs =
           Inr (Some (as_column L V (replicate (L * min 1 V) (sqrt (1 / real L)))), xs)"
  using assms by (simp add: sparo_weights_def)

lemma scale_by_const_column:
  assumes "length rows = L"
  shows "map2 scale_slot rows (as_column L V (replicate (L * min 1 V) c)) =
           (if V = 0 then map (\<lambda>r. map2 (*) r []) rows else map (\<lambda>r. map (\<lambda>v. v * c) r) rows)"
proof (cases "V = 0")
  case True
  have "as_column L V (replicate (L * min 1 V) c) = replicate L []"
    by (simp add: as_column_def slots_def True map_replicate_const)
  then have "map2 scale_slot rows (as_column L V (replicate (L * min 1 V) c)) =
      map (\<lambda>(r, w). scale_slot r w) (map (\<lambda>r. (r, [])) (take L rows))"
    by (simp only: zip_replicate2)
  then show ?thesis using assms True by (simp add: scale_slot_def comp_def)
next
  case False
  then have V: "0 < V" by simp
  have "as_column L V (replicate (L * min 1 V) c) = map (\<lambda>x. [x]) (replicate (L * min 1 V) c)"
    using V by (intro singletons_of_column) simp_all
  also have "\<dots> = replicate L [c]" using V by simp
  finally have "map2 scale_slot rows (as_column L V (replicate (L * min 1 V) c)) =
      map (\<lambda>(r, w). scale_slot r w) (map (\<lambda>r. (r, [c])) (take L rows))"
    by (simp only: zip_replicate2)
  then show ?thesis using assms False by (simp add: scale_slot_def comp_def)
qed

lemma project_const:
  assumes L: "0 < L" and len: "length x = L * V"
    and rep: "sparo_rep rep (slots L V x) = Inr (map f (slots L V x))"
    and p: "parse_sparo_type ty = Inr (rep, ''const'')"
    and f0: "f [] = []"
  shows "project_for_sparo (Some (int L)) (Some (int V)) ty x =
           Inr (map (\<lambda>r. map (\<lambda>v. v * sqrt (1 / real L)) (f r)) (slots L V x))"
proof -
  define W where "W = as_column L V (replicate (L * min 1 V) (sqrt (1 / real L)))"
  have v: "view_LV (length x) (Some (int L)) (Some (int V)) = Inr (L, V)"
    unfolding len by (rule view_LV_exact)
  have w: "sparo_weights (int L) rep ''const'' L V (slots L V x) = Inr (Some W, slots L V x)"
    unfolding W_def by (rule const_weights [OF L])
  have s: "map2 scale_slot (map f (slots L V x)) W =
           map (\<lambda>r. map (\<lambda>v. v * sqrt (1 / real L)) (f r)) (slots L V x)"
  proof (cases "V = 0")
    case True
    have sl: "slots L 0 x = replicate L []" by (simp add: slots_def map_replicate_const)
    have ac: "as_column L 0 [] = replicate L []"
      by (simp add: as_column_def slots_def map_replicate_const)
    show ?thesis
      unfolding W_def by (simp add: True sl ac f0 zip_replicate scale_slot_def)
  next
    case False
    with scale_by_const_column [of "map f (slots L V x)" L V "sqrt (1 / real L)"]
    show ?thesis unfolding W_def by (simp add: length_slots comp_def)
  qed
  show ?thesis
    by (simp add: project_for_sparo_def v p bindE_def w rep s)
qed

lemma concat_scaled:
  "concat (map (\<lambda>r. map (\<lambda>v. v * c) (f r)) (slots L V x)) =
     concat (map (\<lambda>i. map (\<lambda>v. c * v) (f (take V (drop (i * V) x)))) [0..<L])"
  for c :: real
proof -
  have "(\<lambda>v. v * c) = (\<lambda>v. c * v)" by (rule ext) (rule mult.commute)
  then show ?thesis by (simp add: slots_def comp_def)
qed

text \<open>
  C4. For every \<open>L > 0\<close> (so for \<open>L = 1, 4, 16\<close>), every \<open>V\<close> and every flat vector of
  length \<open>L * V\<close>, \<^verbatim>\<open>_project_for_sparo\<close> with the tag \<^verbatim>\<open>cont:const\<close> or \<^verbatim>\<open>sem:const\<close>
  returns \<open>L\<close> slots, and flattening them gives the per-slot normalisation of the input
  under that representation mode, scaled by \<open>sqrt (1 / L)\<close>. Entries are reals: the
  identity is exact, and the floating-point code meets it up to rounding.
\<close>

theorem const_weighting_round_trip:
  assumes "0 < L" and "length x = L * V"
  shows "(\<exists>out. project_for_sparo (Some (int L)) (Some (int V)) ''cont:const'' x = Inr out \<and>
               length out = L \<and> concat out = scaled_slot_normalization ''cont'' L V x) \<and>
         (\<exists>out. project_for_sparo (Some (int L)) (Some (int V)) ''sem:const'' x = Inr out \<and>
               length out = L \<and> concat out = scaled_slot_normalization ''sem'' L V x)"
proof
  have r: "sparo_rep ''cont'' (slots L V x) = Inr (map F_normalize (slots L V x))"
    by (simp add: sparo_rep_def)
  have f0: "F_normalize [] = []" by (simp add: F_normalize_def)
  from project_const [OF assms r parse_cont_const f0]
  show "\<exists>out. project_for_sparo (Some (int L)) (Some (int V)) ''cont:const'' x = Inr out \<and>
               length out = L \<and> concat out = scaled_slot_normalization ''cont'' L V x"
    by (simp add: length_slots concat_scaled scaled_slot_normalization_def slot_normalization_def)
next
  have r: "sparo_rep ''sem'' (slots L V x) = Inr (map (\<lambda>s. F_normalize (softmax s)) (slots L V x))"
    by (simp add: sparo_rep_def)
  have f0: "F_normalize (softmax []) = []" by (simp add: F_normalize_def softmax_def)
  from project_const [OF assms r parse_sem_const f0]
  show "\<exists>out. project_for_sparo (Some (int L)) (Some (int V)) ''sem:const'' x = Inr out \<and>
               length out = L \<and> concat out = scaled_slot_normalization ''sem'' L V x"
    by (simp add: length_slots concat_scaled scaled_slot_normalization_def slot_normalization_def)
qed

theorem const_weighting_round_trip_witness:
  "0 < (4::nat) \<and> length [1, 2, 3, 4, 5, 6, 7, 8 :: real] = 4 * 2 \<and>
   (\<exists>out. project_for_sparo (Some (int 4)) (Some (int 2)) ''cont:const'' [1, 2, 3, 4, 5, 6, 7, 8]
            = Inr out \<and>
          length out = 4 \<and>
          concat out = scaled_slot_normalization ''cont'' 4 2 [1, 2, 3, 4, 5, 6, 7, 8]) \<and>
   (\<exists>out. project_for_sparo (Some (int 4)) (Some (int 2)) ''sem:const'' [1, 2, 3, 4, 5, 6, 7, 8]
            = Inr out \<and>
          length out = 4 \<and>
          concat out = scaled_slot_normalization ''sem'' 4 2 [1, 2, 3, 4, 5, 6, 7, 8])"
proof -
  have a: "0 < (4::nat)" by simp
  have b: "length [1, 2, 3, 4, 5, 6, 7, 8 :: real] = 4 * 2" by simp
  from const_weighting_round_trip [OF a b] a b show ?thesis by blast
qed

end
